theory Spec2Isabelle
  imports Main
begin

section \<open>Go strings and the standard-library functions the branch namer calls\<close>

text \<open>
  A Go string is a sequence of bytes; \<open>len\<close> and slicing count bytes. It is modelled as
  \<^typ>\<open>string\<close>, one \<^typ>\<open>char\<close> per byte. The functions of package \<open>strings\<close> have a
  byte-wise fast path for ASCII input and fall back to the Unicode tables otherwise. The
  fast paths are written out below; the Unicode fall-backs belong to the Go standard
  library and are taken as parameters, so that every theorem holds whatever they compute.
\<close>

record unicode =
  mapToLower :: "string \<Rightarrow> string"
    \<comment> \<open>\<open>strings.Map(unicode.ToLower, s)\<close>, reached when \<open>s\<close> has a byte \<open>\<ge> 0x80\<close>\<close>
  trimFuncIsSpace :: "string \<Rightarrow> string"
    \<comment> \<open>\<open>strings.TrimFunc(s, unicode.IsSpace)\<close>\<close>
  trimRightFuncIsSpace :: "string \<Rightarrow> string"
    \<comment> \<open>\<open>strings.TrimRightFunc(s, unicode.IsSpace)\<close>\<close>

definition byte :: "char \<Rightarrow> nat" where
  "byte c = of_char c"

definition isASCII :: "char \<Rightarrow> bool" where
  \<comment> \<open>\<open>c < utf8.RuneSelf\<close>\<close>
  "isASCII c \<longleftrightarrow> byte c < 128"

definition asciiSpace :: "char \<Rightarrow> bool" where
  \<comment> \<open>the table \<open>asciiSpace\<close>: tab, newline, vertical tab, form feed, carriage return, space\<close>
  "asciiSpace c \<longleftrightarrow> byte c = 9 \<or> byte c = 10 \<or> byte c = 11 \<or> byte c = 12 \<or> byte c = 13 \<or> byte c = 32"

definition isUpper :: "char \<Rightarrow> bool" where
  \<comment> \<open>\<open>'A' <= c && c <= 'Z'\<close>\<close>
  "isUpper c \<longleftrightarrow> 65 \<le> byte c \<and> byte c \<le> 90"

definition lowerByte :: "char \<Rightarrow> char" where
  \<comment> \<open>\<open>c += 'a' - 'A'\<close> on an upper-case letter\<close>
  "lowerByte c = (if isUpper c then char_of (byte c + 32) else c)"

definition ToLower :: "unicode \<Rightarrow> string \<Rightarrow> string" where
  \<comment> \<open>\<open>strings.ToLower\<close>\<close>
  "ToLower U s =
     (if list_all isASCII s
      then (if list_ex isUpper s then map lowerByte s else s)
      else mapToLower U s)"

function trimSpaceStop :: "unicode \<Rightarrow> string \<Rightarrow> string" where
  \<comment> \<open>the second loop of \<open>strings.TrimSpace\<close>, on \<open>s[start:]\<close>, moving \<open>stop\<close> down\<close>
  "trimSpaceStop U s =
     (if s = [] then []
      else if \<not> isASCII (last s) then trimRightFuncIsSpace U s
      else if asciiSpace (last s) then trimSpaceStop U (butlast s)
      else s)"
  by pat_completeness auto
termination
  by (relation "measure (\<lambda>(U, s). length s)") auto

fun trimSpaceStart :: "unicode \<Rightarrow> string \<Rightarrow> string" where
  \<comment> \<open>the first loop of \<open>strings.TrimSpace\<close>, moving \<open>start\<close> up\<close>
  "trimSpaceStart U [] = []"
| "trimSpaceStart U (c # cs) =
     (if \<not> isASCII c then trimFuncIsSpace U (c # cs)
      else if asciiSpace c then trimSpaceStart U cs
      else trimSpaceStop U (c # cs))"

definition TrimSpace :: "unicode \<Rightarrow> string \<Rightarrow> string" where
  \<comment> \<open>\<open>strings.TrimSpace\<close>\<close>
  "TrimSpace U s = trimSpaceStart U s"

definition TrimLeft :: "string \<Rightarrow> char \<Rightarrow> string" where
  \<comment> \<open>\<open>strings.TrimLeft(s, cutset)\<close> for a cutset of one ASCII character\<close>
  "TrimLeft s c = dropWhile (\<lambda>d. d = c) s"

definition TrimRight :: "string \<Rightarrow> char \<Rightarrow> string" where
  \<comment> \<open>\<open>strings.TrimRight(s, cutset)\<close> for a cutset of one ASCII character\<close>
  "TrimRight s c = rev (dropWhile (\<lambda>d. d = c) (rev s))"

definition Trim :: "string \<Rightarrow> char \<Rightarrow> string" where
  \<comment> \<open>\<open>strings.Trim(s, cutset)\<close> for a cutset of one ASCII character\<close>
  "Trim s c = TrimRight (TrimLeft s c) c"

definition inClass :: "char \<Rightarrow> bool" where
  \<comment> \<open>the character class \<open>[a-z0-9]\<close>\<close>
  "inClass c \<longleftrightarrow> (97 \<le> byte c \<and> byte c \<le> 122) \<or> (48 \<le> byte c \<and> byte c \<le> 57)"

function ReplaceAllString :: "string \<Rightarrow> string" where
  \<comment> \<open>\<open>regexp.MustCompile(`[^a-z0-9]+`).ReplaceAllString(s, "-")\<close>: every maximal run of
      bytes outside the class becomes one hyphen. The class is ASCII and no byte of a
      multi-byte UTF-8 sequence is, so runs of runes and runs of bytes coincide.\<close>
  "ReplaceAllString [] = []"
| "ReplaceAllString (c # cs) =
     (if inClass c then c # ReplaceAllString cs
      else CHR ''-'' # ReplaceAllString (dropWhile (\<lambda>d. \<not> inClass d) cs))"
  by pat_completeness auto
termination
  by (relation "measure length") (auto simp: le_imp_less_Suc length_dropWhile_le)

section \<open>The branch namer (package worktree)\<close>

definition SanitizeBranchName :: "unicode \<Rightarrow> string \<Rightarrow> string" where
  "SanitizeBranchName U description =
     (let s = ToLower U (TrimSpace U description);
          s = ReplaceAllString s;
          s = Trim s (CHR ''-'')
      in if length s > 60 then TrimRight (take 60 s) (CHR ''-'') else s)"

definition BranchName :: "unicode \<Rightarrow> string \<Rightarrow> string \<Rightarrow> string" where
  "BranchName U prefix description =
     (let sanitized = SanitizeBranchName U description
      in if prefix = [] then sanitized else prefix @ ''/'' @ sanitized)"

definition BranchNameFromTicket :: "unicode \<Rightarrow> string \<Rightarrow> string \<Rightarrow> string \<Rightarrow> string" where
  "BranchNameFromTicket U prefix ticketKey summary =
     (let sanitized = SanitizeBranchName U summary;
          key = ToLower U ticketKey;
          name = key @ ''-'' @ sanitized;
          name = (if length name > 60 then TrimRight (take 60 name) (CHR ''-'') else name)
      in if prefix = [] then name else prefix @ ''/'' @ name)"

definition asciiOnly :: unicode where
  \<comment> \<open>a table for evaluating the functions on ASCII input, where no fall-back is reached\<close>
  "asciiOnly = \<lparr>mapToLower = (\<lambda>s. s), trimFuncIsSpace = (\<lambda>s. s), trimRightFuncIsSpace = (\<lambda>s. s)\<rparr>"

section \<open>The task registry (package config)\<close>

text \<open>
  Errors are values: one constructor per error the source builds, carrying what the
  message is formatted from.
\<close>

datatype error =
    HomeDirUnknown string           \<comment> \<open>\<open>"cannot determine home directory: %w"\<close>\<close>
  | ReadConfigFailed string         \<comment> \<open>\<open>"failed to read config: %w"\<close>\<close>
  | ParseConfigFailed string        \<comment> \<open>\<open>"failed to parse config: %w"\<close>\<close>
  | CreateConfigDirFailed string    \<comment> \<open>\<open>"failed to create config directory: %w"\<close>\<close>
  | MarshalConfigFailed string      \<comment> \<open>\<open>"failed to marshal config: %w"\<close>\<close>
  | WriteFileError string           \<comment> \<open>the error of \<open>os.WriteFile\<close>, returned as it is\<close>
  | TaskNotFound string             \<comment> \<open>\<open>"task %q not found"\<close>\<close>
  | NoTaskForWorktree string        \<comment> \<open>\<open>"no task found for worktree %q"\<close>\<close>
  | NotAGitRepository string        \<comment> \<open>\<open>"not a git repository: %s"\<close>\<close>
  | BranchAlreadyExists string      \<comment> \<open>\<open>"branch %q already exists; use a different description ..."\<close>\<close>
  | CreateWorktreeDirFailed string  \<comment> \<open>\<open>"failed to create worktree directory: %w"\<close>\<close>
  | CreateWorktreeFailed string     \<comment> \<open>\<open>worktree.Create\<close>: \<open>"failed to create worktree: %s\n%s"\<close>\<close>
  | TaskNotSaved error              \<comment> \<open>\<open>"task created but failed to save: %w"\<close>\<close>
  | RemoveWorktreeFailed string     \<comment> \<open>\<open>worktree.Remove\<close>: \<open>"failed to remove worktree: %s\n%s"\<close>\<close>
  | RemoveFailed error              \<comment> \<open>\<open>Finish\<close>, \<open>Remove\<close>: \<open>"failed to remove worktree: %w"\<close>\<close>

record ConnectorConfig =
  URL :: string
  Email :: string
  APIToken :: string
  Project :: string

text \<open>
  A \<open>time.Time\<close> is the instant it denotes (with its zone offset, to the nanosecond:
  what its RFC 3339 text shows) and the monotonic clock reading that \<open>time.Now\<close> attaches
  to it. The reading is no part of the text of a time and a time that was parsed has none.
\<close>

record Time =
  instant :: int
  monotonic :: "int option"

record Task =
  ID :: string
  Description :: string
  Worktree :: string
  Branch :: string
  RepoPath :: string
  Connector :: string
  TicketKey :: string
  Created :: Time

text \<open>
  A Go map is an association list (first entry of a key wins); the \<open>nil\<close> map and slice
  are the empty ones, so the \<open>nil\<close> checks of \<open>Load\<close> are the identity here.
\<close>

record Config =
  WorktreesBase :: string
  DefaultBranch :: string
  BranchPrefix :: string
  DefaultAgent :: string
  AgentAliases :: "(string \<times> string) list"
  Connectors :: "(string \<times> ConnectorConfig) list"
  Tasks :: "Task list"
  path :: string

subsection \<open>The persisted document\<close>

text \<open>
  What \<open>yaml.Marshal\<close> writes for a \<open>Config\<close> and what \<open>yaml.Unmarshal\<close> reads into one is
  fixed by the struct tags: a mapping with one entry per exported field, where a field
  tagged \<open>omitempty\<close> is left out when it is empty. The document is the mapping, each
  key present or absent (\<open>y_id\<close> is the key \<open>id\<close>). A time is written as its RFC 3339
  text, so the document holds its instant. Turning a document into text and back is the
  YAML library's work and is a parameter of the environment.
\<close>

record ConnectorDoc =
  y_url :: "string option"
  y_email :: "string option"
  y_api_token :: "string option"
  y_project :: "string option"

record TaskDoc =
  y_id :: "string option"
  y_description :: "string option"
  y_worktree :: "string option"
  y_branch :: "string option"
  y_repo_path :: "string option"
  y_connector :: "string option"
  y_ticket_key :: "string option"
  y_created :: "int option"

record ConfigDoc =
  y_worktrees_base :: "string option"
  y_default_branch :: "string option"
  y_branch_prefix :: "string option"
  y_default_agent :: "string option"
  y_agent_aliases :: "(string \<times> string) list option"
  y_connectors :: "(string \<times> ConnectorDoc) list option"
  y_tasks :: "TaskDoc list option"

definition omitempty :: "'a list \<Rightarrow> 'a list option" where
  \<comment> \<open>a string, slice or map field tagged \<open>omitempty\<close>\<close>
  "omitempty s = (if s = [] then None else Some s)"

definition orElse :: "'a option \<Rightarrow> 'a \<Rightarrow> 'a" where
  \<comment> \<open>decoding into a field: an absent key leaves the field as it was\<close>
  "orElse x d = (case x of None \<Rightarrow> d | Some v \<Rightarrow> v)"

definition docOfConnector :: "ConnectorConfig \<Rightarrow> ConnectorDoc" where
  "docOfConnector cc =
     \<lparr>y_url = omitempty (URL cc), y_email = omitempty (Email cc),
      y_api_token = omitempty (APIToken cc), y_project = omitempty (Project cc)\<rparr>"

definition connectorOfDoc :: "ConnectorDoc \<Rightarrow> ConnectorConfig" where
  "connectorOfDoc d =
     \<lparr>URL = orElse (y_url d) [], Email = orElse (y_email d) [],
      APIToken = orElse (y_api_token d) [], Project = orElse (y_project d) []\<rparr>"

definition docOfTask :: "Task \<Rightarrow> TaskDoc" where
  "docOfTask t =
     \<lparr>y_id = Some (ID t), y_description = Some (Task.Description t), y_worktree = Some (Worktree t),
      y_branch = Some (Branch t), y_repo_path = Some (Task.RepoPath t),
      y_connector = omitempty (Task.Connector t), y_ticket_key = omitempty (Task.TicketKey t),
      y_created = Some (instant (Created t))\<rparr>"

definition taskOfDoc :: "TaskDoc \<Rightarrow> Task" where
  \<comment> \<open>an element of the sequence is decoded into a zero \<open>Task\<close>\<close>
  "taskOfDoc d =
     \<lparr>ID = orElse (y_id d) [], Description = orElse (y_description d) [],
      Worktree = orElse (y_worktree d) [], Branch = orElse (y_branch d) [],
      RepoPath = orElse (y_repo_path d) [], Connector = orElse (y_connector d) [],
      TicketKey = orElse (y_ticket_key d) [],
      Created = \<lparr>instant = orElse (y_created d) 0, monotonic = None\<rparr>\<rparr>"

definition docOfConfig :: "Config \<Rightarrow> ConfigDoc" where
  \<comment> \<open>the unexported fields \<open>path\<close> and \<open>mu\<close> are tagged \<open>yaml:"-"\<close>\<close>
  "docOfConfig c =
     \<lparr>y_worktrees_base = Some (WorktreesBase c), y_default_branch = Some (DefaultBranch c),
      y_branch_prefix = Some (BranchPrefix c), y_default_agent = omitempty (DefaultAgent c),
      y_agent_aliases = omitempty (AgentAliases c),
      y_connectors = omitempty (map (\<lambda>(k, cc). (k, docOfConnector cc)) (Connectors c)),
      y_tasks = omitempty (map docOfTask (Tasks c))\<rparr>"

definition decodeInto :: "ConfigDoc \<Rightarrow> Config \<Rightarrow> Config" where
  \<comment> \<open>a key that is present overwrites its field; a sequence replaces the slice; the
      entries of a mapping are stored into the map that is there\<close>
  "decodeInto d c =
     c\<lparr>WorktreesBase := orElse (y_worktrees_base d) (WorktreesBase c),
       DefaultBranch := orElse (y_default_branch d) (DefaultBranch c),
       BranchPrefix := orElse (y_branch_prefix d) (BranchPrefix c),
       DefaultAgent := orElse (y_default_agent d) (DefaultAgent c),
       AgentAliases := (case y_agent_aliases d of None \<Rightarrow> AgentAliases c | Some m \<Rightarrow> m @ AgentAliases c),
       Connectors := (case y_connectors d of None \<Rightarrow> Connectors c
                      | Some m \<Rightarrow> map (\<lambda>(k, cd). (k, connectorOfDoc cd)) m @ Connectors c),
       Tasks := (case y_tasks d of None \<Rightarrow> Tasks c | Some ts \<Rightarrow> map taskOfDoc ts)\<rparr>"

subsection \<open>The environment\<close>

datatype write_outcome =
    Written                  \<comment> \<open>the file holds the data\<close>
  | OpenFailed string        \<comment> \<open>\<open>OpenFile\<close> failed: the file is as it was\<close>
  | WriteFailed nat string   \<comment> \<open>the file was truncated by \<open>O_TRUNC\<close>, so many bytes were
                                 written, and \<open>Write\<close> or \<open>Close\<close> reported an error\<close>

datatype call =
    GitShowToplevel string                \<comment> \<open>\<open>git -C repo rev-parse --show-toplevel\<close>\<close>
  | GitVerify string string               \<comment> \<open>\<open>git -C repo rev-parse --verify branch\<close>\<close>
  | GitWorktreeAdd string string string   \<comment> \<open>\<open>git -C repo worktree add -b branch path\<close>\<close>
  | GitWorktreeRemove string string       \<comment> \<open>\<open>git -C repo worktree remove path --force\<close>\<close>
  | GitBranchDelete string string         \<comment> \<open>\<open>git -C repo branch -D branch\<close>\<close>
  | OsMkdirAll string
  | OsWriteFile string string

text \<open>
  Everything outside the repository: the Go standard library and the YAML library
  (pure functions), and what the operating system and git answer to each call. A
  git command or file operation answers \<open>None\<close> when it succeeds and \<open>Some\<close> of its
  output when it fails.
\<close>

record env =
  uni :: unicode
  filepath_Join :: "string list \<Rightarrow> string"
  filepath_Dir :: "string \<Rightarrow> string"
  filepath_Base :: "string \<Rightarrow> string"
  yaml_emit :: "ConfigDoc \<Rightarrow> string + string"
  yaml_parse :: "string \<Rightarrow> string + ConfigDoc"
  os_UserHomeDir :: "string + string"
  os_ReadFile_fault :: "string \<Rightarrow> string option"
  os_MkdirAll :: "string \<Rightarrow> string option"
  os_WriteFile :: "string \<Rightarrow> string \<Rightarrow> write_outcome"
  git_show_toplevel :: "string \<Rightarrow> string option"
  git_verify :: "string \<Rightarrow> string \<Rightarrow> bool"
  git_worktree_add :: "string \<Rightarrow> string \<Rightarrow> string \<Rightarrow> string option"
  git_worktree_remove :: "string \<Rightarrow> string \<Rightarrow> string option"
  git_branch_D :: "string \<Rightarrow> string \<Rightarrow> string option"
  rand_Read :: string
  time_Now :: Time

text \<open>
  The state the operations act on: the \<open>Config\<close> the manager holds a pointer to, the
  files on disk by path, and the git commands and file-system writes issued so far.
\<close>

record world =
  config :: Config
  files :: "string \<rightharpoonup> string"
  calls :: "call list"

definition issue :: "call \<Rightarrow> world \<Rightarrow> world" where
  "issue c w = w\<lparr>calls := calls w @ [c]\<rparr>"

datatype read_result = ReadOk string | NotExist | ReadError string

definition ReadFile :: "env \<Rightarrow> world \<Rightarrow> string \<Rightarrow> read_result" where
  \<comment> \<open>\<open>os.ReadFile\<close>\<close>
  "ReadFile E w p =
     (case os_ReadFile_fault E p of
        Some e \<Rightarrow> ReadError e
      | None \<Rightarrow> (case files w p of None \<Rightarrow> NotExist | Some data \<Rightarrow> ReadOk data))"

definition WriteFile :: "env \<Rightarrow> world \<Rightarrow> string \<Rightarrow> string \<Rightarrow> string option \<times> world" where
  \<comment> \<open>\<open>os.WriteFile\<close>: open with \<open>O_WRONLY|O_CREATE|O_TRUNC\<close>, write, close\<close>
  "WriteFile E w p data =
     (let w = issue (OsWriteFile p data) w
      in case os_WriteFile E p data of
           Written \<Rightarrow> (None, w\<lparr>files := (files w)(p \<mapsto> data)\<rparr>)
         | OpenFailed e \<Rightarrow> (Some e, w)
         | WriteFailed n e \<Rightarrow> (Some e, w\<lparr>files := (files w)(p \<mapsto> take n data)\<rparr>))"

definition MkdirAll :: "env \<Rightarrow> world \<Rightarrow> string \<Rightarrow> string option \<times> world" where
  \<comment> \<open>\<open>os.MkdirAll\<close>\<close>
  "MkdirAll E w p = (os_MkdirAll E p, issue (OsMkdirAll p) w)"

subsection \<open>Config\<close>

definition configDir :: string where
  "configDir = ''.wt''"

definition configFile :: string where
  "configFile = ''config.yaml''"

definition homeOrEmpty :: "env \<Rightarrow> string" where
  \<comment> \<open>\<open>home, _ := os.UserHomeDir()\<close>\<close>
  "homeOrEmpty E = (case os_UserHomeDir E of Inl e \<Rightarrow> [] | Inr home \<Rightarrow> home)"

definition DefaultConfig :: "env \<Rightarrow> Config" where
  "DefaultConfig E =
     \<lparr>WorktreesBase = filepath_Join E [homeOrEmpty E, ''worktrees''],
      DefaultBranch = ''main'',
      BranchPrefix = ''feature'',
      DefaultAgent = [],
      AgentAliases = [],
      Connectors = [],
      Tasks = [],
      path = []\<rparr>"

definition ConfigDir :: "env \<Rightarrow> error + string" where
  "ConfigDir E =
     (case os_UserHomeDir E of
        Inl e \<Rightarrow> Inl (HomeDirUnknown e)
      | Inr home \<Rightarrow> Inr (filepath_Join E [home, configDir]))"

definition Load :: "env \<Rightarrow> world \<Rightarrow> error + Config" where
  "Load E w =
     (case ConfigDir E of
        Inl e \<Rightarrow> Inl e
      | Inr dir \<Rightarrow>
          (let p = filepath_Join E [dir, configFile];
               cfg = (DefaultConfig E)\<lparr>path := p\<rparr>
           in case ReadFile E w p of
                NotExist \<Rightarrow> Inr cfg
              | ReadError e \<Rightarrow> Inl (ReadConfigFailed e)
              | ReadOk data \<Rightarrow>
                  (case yaml_parse E data of
                     Inl e \<Rightarrow> Inl (ParseConfigFailed e)
                   | Inr d \<Rightarrow> Inr (decodeInto d cfg))))"

definition Save :: "env \<Rightarrow> world \<Rightarrow> error option \<times> world" where
  "Save E w =
     (case (if path (config w) = []
            then (case ConfigDir E of
                    Inl e \<Rightarrow> Inl e
                  | Inr dir \<Rightarrow> Inr (filepath_Join E [dir, configFile]))
            else Inr (path (config w))) of
        Inl e \<Rightarrow> (Some e, w)
      | Inr p \<Rightarrow>
          (let w = w\<lparr>config := (config w)\<lparr>path := p\<rparr>\<rparr>
           in case MkdirAll E w (filepath_Dir E p) of
                (Some e, w) \<Rightarrow> (Some (CreateConfigDirFailed e), w)
              | (None, w) \<Rightarrow>
                  (case yaml_emit E (docOfConfig (config w)) of
                     Inl e \<Rightarrow> (Some (MarshalConfigFailed e), w)
                   | Inr data \<Rightarrow>
                       (case WriteFile E w p data of
                          (Some e, w) \<Rightarrow> (Some (WriteFileError e), w)
                        | (None, w) \<Rightarrow> (None, w)))))"

definition AddTask :: "env \<Rightarrow> world \<Rightarrow> Task \<Rightarrow> error option \<times> world" where
  "AddTask E w t = Save E (w\<lparr>config := (config w)\<lparr>Tasks := Tasks (config w) @ [t]\<rparr>\<rparr>)"

fun indexOfID :: "Task list \<Rightarrow> string \<Rightarrow> nat option" where
  \<comment> \<open>the loop \<open>for i := range c.Tasks { if c.Tasks[i].ID == id ...\<close>: the first match\<close>
  "indexOfID [] x = None"
| "indexOfID (t # ts) x = (if ID t = x then Some 0 else map_option Suc (indexOfID ts x))"

fun indexOfWorktree :: "Task list \<Rightarrow> string \<Rightarrow> nat option" where
  "indexOfWorktree [] dir = None"
| "indexOfWorktree (t # ts) dir =
     (if Worktree t = dir then Some 0 else map_option Suc (indexOfWorktree ts dir))"

definition RemoveTask :: "env \<Rightarrow> world \<Rightarrow> string \<Rightarrow> error option \<times> world" where
  \<comment> \<open>\<open>c.Tasks = append(c.Tasks[:i], c.Tasks[i+1:]...)\<close> at the first match\<close>
  "RemoveTask E w x =
     (case indexOfID (Tasks (config w)) x of
        Some i \<Rightarrow>
          Save E (w\<lparr>config := (config w)\<lparr>Tasks := take i (Tasks (config w)) @ drop (i + 1) (Tasks (config w))\<rparr>\<rparr>)
      | None \<Rightarrow> (Some (TaskNotFound x), w))"

definition FindTask :: "Config \<Rightarrow> string \<Rightarrow> error + nat" where
  \<comment> \<open>the pointer \<open>&c.Tasks[i]\<close> is the index \<open>i\<close>\<close>
  "FindTask c x = (case indexOfID (Tasks c) x of Some i \<Rightarrow> Inr i | None \<Rightarrow> Inl (TaskNotFound x))"

definition FindTaskByWorktree :: "Config \<Rightarrow> string \<Rightarrow> error + nat" where
  "FindTaskByWorktree c dir =
     (case indexOfWorktree (Tasks c) dir of Some i \<Rightarrow> Inr i | None \<Rightarrow> Inl (NoTaskForWorktree dir))"

section \<open>Git commands (package worktree)\<close>

definition RepoName :: "env \<Rightarrow> world \<Rightarrow> string \<Rightarrow> (error + string) \<times> world" where
  "RepoName E w repoPath =
     (let w = issue (GitShowToplevel repoPath) w
      in case git_show_toplevel E repoPath of
           None \<Rightarrow> (Inl (NotAGitRepository repoPath), w)
         | Some out \<Rightarrow> (Inr (filepath_Base E (TrimSpace (uni E) out)), w))"

definition Create :: "env \<Rightarrow> world \<Rightarrow> string \<Rightarrow> string \<Rightarrow> string \<Rightarrow> error option \<times> world" where
  "Create E w repoPath worktreePath branch =
     (map_option CreateWorktreeFailed (git_worktree_add E repoPath worktreePath branch),
      issue (GitWorktreeAdd repoPath worktreePath branch) w)"

definition Remove :: "env \<Rightarrow> world \<Rightarrow> string \<Rightarrow> string \<Rightarrow> error option \<times> world" where
  "Remove E w repoPath worktreePath =
     (map_option RemoveWorktreeFailed (git_worktree_remove E repoPath worktreePath),
      issue (GitWorktreeRemove repoPath worktreePath) w)"

definition DeleteBranch :: "env \<Rightarrow> world \<Rightarrow> string \<Rightarrow> string \<Rightarrow> string option \<times> world" where
  "DeleteBranch E w repoPath branch =
     (git_branch_D E repoPath branch, issue (GitBranchDelete repoPath branch) w)"

definition BranchExists :: "env \<Rightarrow> world \<Rightarrow> string \<Rightarrow> string \<Rightarrow> bool \<times> world" where
  "BranchExists E w repoPath branch =
     (git_verify E repoPath branch, issue (GitVerify repoPath branch) w)"

section \<open>The task manager (package task)\<close>

record StartOptions =
  Description :: string
  RepoPath :: string
  Connector :: string
  TicketKey :: string
  TicketTitle :: string

definition hexDigit :: "nat \<Rightarrow> char" where
  "hexDigit n = ''0123456789abcdef'' ! (n mod 16)"

definition hexByte :: "char \<Rightarrow> string" where
  "hexByte c = [hexDigit (byte c div 16), hexDigit (byte c mod 16)]"

definition generateID :: "env \<Rightarrow> string" where
  \<comment> \<open>\<open>b := make([]byte, 4); rand.Read(b); fmt.Sprintf("wt-%x", b)\<close>\<close>
  "generateID E = ''wt-'' @ concat (map hexByte (take 4 (rand_Read E @ replicate 4 (char_of (0::nat)))))"

definition startBranch :: "env \<Rightarrow> Config \<Rightarrow> StartOptions \<Rightarrow> string" where
  \<comment> \<open>the branch \<open>Start\<close> computes: by ticket when a ticket key is given, else by description\<close>
  "startBranch E c opts =
     (let prefix = BranchPrefix c
      in if TicketKey opts \<noteq> []
         then (let title = (if TicketTitle opts = [] then Description opts else TicketTitle opts)
               in BranchNameFromTicket (uni E) prefix (TicketKey opts) title)
         else BranchName (uni E) prefix (Description opts))"

definition Start :: "env \<Rightarrow> world \<Rightarrow> StartOptions \<Rightarrow> (error + Task) \<times> world" where
  "Start E w opts =
     (case RepoName E w (RepoPath opts) of
        (Inl e, w) \<Rightarrow> (Inl e, w)
      | (Inr repoName, w) \<Rightarrow>
          (let ident = generateID E;
               branch = startBranch E (config w) opts
           in case BranchExists E w (RepoPath opts) branch of
                (True, w) \<Rightarrow> (Inl (BranchAlreadyExists branch), w)
              | (False, w) \<Rightarrow>
                  (let wtPath = filepath_Join E [WorktreesBase (config w), repoName,
                                                 SanitizeBranchName (uni E) (Description opts)]
                   in case MkdirAll E w (filepath_Dir E wtPath) of
                        (Some e, w) \<Rightarrow> (Inl (CreateWorktreeDirFailed e), w)
                      | (None, w) \<Rightarrow>
                          (case Create E w (RepoPath opts) wtPath branch of
                             (Some e, w) \<Rightarrow> (Inl e, w)
                           | (None, w) \<Rightarrow>
                               (let task = \<lparr>ID = ident, Description = Description opts,
                                            Worktree = wtPath, Branch = branch,
                                            RepoPath = RepoPath opts, Connector = Connector opts,
                                            TicketKey = TicketKey opts, Created = time_Now E\<rparr>
                                in case AddTask E w task of
                                     (Some e, w) \<Rightarrow> (Inl (TaskNotSaved e), w)
                                   | (None, w) \<Rightarrow> (Inr task, w))))))"

definition slotAfterRemove :: "Task list \<Rightarrow> nat \<Rightarrow> Task" where
  \<comment> \<open>what the pointer \<open>&c.Tasks[i]\<close> points to once \<open>RemoveTask\<close> has run:
      \<open>append(c.Tasks[:i], c.Tasks[i+1:]...)\<close> moves the later elements down by one inside
      the same backing array and leaves its last slot as it was\<close>
  "slotAfterRemove ts i = (take i ts @ drop (i + 1) ts @ [last ts]) ! i"

definition Finish :: "env \<Rightarrow> world \<Rightarrow> string \<Rightarrow> (error + Task) \<times> world" where
  "Finish E w x =
     (case FindTask (config w) x of
        Inl e \<Rightarrow> (Inl e, w)
      | Inr i \<Rightarrow>
          (let ts = Tasks (config w); task = ts ! i
           in case Remove E w (Task.RepoPath task) (Worktree task) of
                (Some e, w) \<Rightarrow> (Inl (RemoveFailed e), w)
              | (None, w) \<Rightarrow>
                  (case DeleteBranch E w (Task.RepoPath task) (Branch task) of
                     (warning, w) \<Rightarrow>
                       (case RemoveTask E w x of
                          (Some e, w) \<Rightarrow> (Inl e, w)
                        | (None, w) \<Rightarrow> (Inr (slotAfterRemove ts i), w)))))"

definition Remove_task :: "env \<Rightarrow> world \<Rightarrow> string \<Rightarrow> (error + Task) \<times> world" where
  \<comment> \<open>\<open>Manager.Remove\<close>\<close>
  "Remove_task E w x =
     (case FindTask (config w) x of
        Inl e \<Rightarrow> (Inl e, w)
      | Inr i \<Rightarrow>
          (let ts = Tasks (config w); task = ts ! i
           in case Remove E w (Task.RepoPath task) (Worktree task) of
                (Some e, w) \<Rightarrow> (Inl (RemoveFailed e), w)
              | (None, w) \<Rightarrow>
                  (case RemoveTask E w x of
                     (Some e, w) \<Rightarrow> (Inl e, w)
                   | (None, w) \<Rightarrow> (Inr (slotAfterRemove ts i), w))))"

section \<open>Predicates of the statements\<close>

text \<open>
  The form of a slug: every byte is in \<open>[a-z0-9]\<close> or is a hyphen, and a hyphen is
  followed by a byte of the class or by nothing.
\<close>

fun sep :: "string \<Rightarrow> bool" where
  "sep [] = True"
| "sep [c] = (inClass c \<or> c = CHR ''-'')"
| "sep (c # d # cs) = ((inClass c \<or> (c = CHR ''-'' \<and> inClass d)) \<and> sep (d # cs))"

text \<open>A slug in the sense of the specification: of that form, at most 60 bytes long, and
  with no hyphen at either end.\<close>

definition slug :: "string \<Rightarrow> bool" where
  "slug s \<longleftrightarrow> sep s \<and> length s \<le> 60 \<and> (s = [] \<or> (hd s \<noteq> CHR ''-'' \<and> last s \<noteq> CHR ''-''))"

text \<open>The branch namer for tickets, in the words of the specification.\<close>

definition cap60 :: "string \<Rightarrow> string" where
  \<comment> \<open>the 60-character cap of the sanitizer: cut at 60, then trim the hyphens the cut left\<close>
  "cap60 s = (if length s > 60 then TrimRight (take 60 s) (CHR ''-'') else s)"

definition fromTicket_spec :: "unicode \<Rightarrow> string \<Rightarrow> string \<Rightarrow> string \<Rightarrow> string" where
  "fromTicket_spec U prefix ticketKey summary =
     (let name = cap60 (SanitizeBranchName U ticketKey @ ''-'' @ SanitizeBranchName U summary)
      in if prefix = [] then name else prefix @ ''/'' @ name)"

text \<open>The invariant of the registry in the specification: no two tasks share an id and
  no two tasks share a worktree path.\<close>

definition registry_inv :: "Config \<Rightarrow> bool" where
  "registry_inv c \<longleftrightarrow> distinct (map ID (Tasks c)) \<and> distinct (map Worktree (Tasks c))"

subsection \<open>An environment and a state to evaluate the operations in\<close>

text \<open>
  \<open>filepath.Join\<close>, \<open>Dir\<close> and \<open>Base\<close> on clean Unix paths, a stand-in for the YAML text
  (the ids of the tasks, one per line), and a git and a file system whose every call
  succeeds.
\<close>

fun joinSlash :: "string list \<Rightarrow> string" where
  "joinSlash [] = []"
| "joinSlash [x] = x"
| "joinSlash (x # xs) = x @ ''/'' @ joinSlash xs"

definition plainJoin :: "string list \<Rightarrow> string" where
  "plainJoin xs = joinSlash (filter (\<lambda>x. x \<noteq> []) xs)"

definition plainDir :: "string \<Rightarrow> string" where
  "plainDir p = rev (drop 1 (dropWhile (\<lambda>c. c \<noteq> CHR ''/'') (rev p)))"

definition plainBase :: "string \<Rightarrow> string" where
  "plainBase p = rev (takeWhile (\<lambda>c. c \<noteq> CHR ''/'') (rev p))"

definition idLines :: "ConfigDoc \<Rightarrow> string" where
  "idLines d = concat (map (\<lambda>t. orElse (y_id t) [] @ [CHR 0x0A]) (orElse (y_tasks d) []))"

definition env0 :: env where
  "env0 =
     \<lparr>uni = asciiOnly,
      filepath_Join = plainJoin,
      filepath_Dir = plainDir,
      filepath_Base = plainBase,
      yaml_emit = (\<lambda>d. Inr (idLines d)),
      yaml_parse = (\<lambda>s. Inl ''yaml: unmarshal errors''),
      os_UserHomeDir = Inr ''/home/u'',
      os_ReadFile_fault = (\<lambda>p. None),
      os_MkdirAll = (\<lambda>p. None),
      os_WriteFile = (\<lambda>p data. Written),
      git_show_toplevel = (\<lambda>repo. Some (repo @ [CHR 0x0A])),
      git_verify = (\<lambda>repo b. False),
      git_worktree_add = (\<lambda>repo p b. None),
      git_worktree_remove = (\<lambda>repo p. None),
      git_branch_D = (\<lambda>repo b. None),
      rand_Read = ''abcd'',
      time_Now = \<lparr>instant = 1000, monotonic = Some 5\<rparr>\<rparr>"

definition task1 :: Task where
  "task1 =
     \<lparr>ID = ''wt-00000001'', Description = ''add login'', Worktree = ''/w/app/add-login'',
      Branch = ''feature/add-login'', RepoPath = ''/src/app'', Connector = [], TicketKey = [],
      Created = \<lparr>instant = 1, monotonic = None\<rparr>\<rparr>"

definition task2 :: Task where
  "task2 =
     \<lparr>ID = ''wt-00000001'', Description = ''fix crash'', Worktree = ''/w/app/fix-crash'',
      Branch = ''feature/fix-crash'', RepoPath = ''/src/app'', Connector = [], TicketKey = [],
      Created = \<lparr>instant = 2, monotonic = None\<rparr>\<rparr>"

definition config1 :: Config where
  "config1 =
     \<lparr>WorktreesBase = ''/w'', DefaultBranch = ''main'', BranchPrefix = ''feature'',
      DefaultAgent = [], AgentAliases = [], Connectors = [], Tasks = [task1],
      path = ''/home/u/.wt/config.yaml''\<rparr>"

definition world1 :: world where
  "world1 = \<lparr>config = config1, files = [''/home/u/.wt/config.yaml'' \<mapsto> ''wt-00000001'' @ [CHR 0x0A]], calls = []\<rparr>"

definition task3 :: Task where
  "task3 = task2\<lparr>ID := ''wt-00000002''\<rparr>"

definition world2 :: world where
  \<comment> \<open>a second task is in memory, the file still holds the first one only\<close>
  "world2 = world1\<lparr>config := config1\<lparr>Tasks := [task1, task3]\<rparr>\<rparr>"

definition envDiskFull :: env where
  \<comment> \<open>the disk fills up after four bytes of the write\<close>
  "envDiskFull = env0\<lparr>os_WriteFile := (\<lambda>p data. WriteFailed 4 ''no space left on device'')\<rparr>"

definition envBranchTaken :: env where
  \<comment> \<open>the repository already has the branch \<open>feature/add-login\<close>\<close>
  "envBranchTaken = env0\<lparr>git_verify := (\<lambda>repo b. b = ''feature/add-login'')\<rparr>"

definition opts1 :: StartOptions where
  "opts1 = \<lparr>Description = ''Add Login!'', RepoPath = ''/src/app'', Connector = [], TicketKey = [], TicketTitle = []\<rparr>"

definition issued :: "world \<Rightarrow> world \<Rightarrow> call set" where
  \<comment> \<open>the commands issued on the way from one state to a later one\<close>
  "issued w w' = set (drop (length (calls w)) (calls w'))"

definition optsBang :: StartOptions where
  "optsBang = \<lparr>Description = ''!!!'', RepoPath = ''/src/app'', Connector = [], TicketKey = [], TicketTitle = []\<rparr>"

definition envGitStrict :: env where
  \<comment> \<open>git refuses the branch name \<open>feature/\<close>\<close>
  "envGitStrict =
     env0\<lparr>git_worktree_add :=
            (\<lambda>repo p b. if b = ''feature/'' then Some ''fatal: not a valid branch name'' else None)\<rparr>"

definition optsTicket :: StartOptions where
  \<comment> \<open>a start from a ticket: the command line copies the summary into the description\<close>
  "optsTicket = \<lparr>Description = ''add login'', RepoPath = ''/src/app'', Connector = ''jira'',
                 TicketKey = ''PROJ-7'', TicketTitle = ''add login''\<rparr>"

definition worldDup :: world where
  \<comment> \<open>two tasks with one id, as \<open>AddTask\<close> or a hand-edited file can leave them\<close>
  "worldDup = world1\<lparr>config := config1\<lparr>Tasks := [task1, task2]\<rparr>\<rparr>"

definition envBranchGone :: env where
  \<comment> \<open>the branch was merged and deleted already: \<open>git branch -D\<close> fails\<close>
  "envBranchGone = env0\<lparr>git_branch_D := (\<lambda>repo b. Some ''error: branch not found'')\<rparr>"

definition envRemoveFails :: env where
  \<comment> \<open>\<open>git worktree remove\<close> fails\<close>
  "envRemoveFails = env0\<lparr>git_worktree_remove := (\<lambda>repo p. Some ''fatal: cannot remove'')\<rparr>"

definition envYaml :: env where
  \<comment> \<open>a YAML library that reads back the one text this state is saved as\<close>
  "envYaml =
     env0\<lparr>yaml_parse :=
            (\<lambda>s. if s = ''wt-00000001'' @ [CHR 0x0A] @ ''wt-00000002'' @ [CHR 0x0A]
                 then Inr (docOfConfig (config world2))
                 else Inl ''yaml: unmarshal errors'')\<rparr>"

definition savePath :: "env \<Rightarrow> Config \<Rightarrow> error + string" where
  \<comment> \<open>the path \<open>Save\<close> writes to: \<open>c.path\<close>, or the default path when \<open>c.path\<close> is empty\<close>
  "savePath E c =
     (if path c = []
      then (case ConfigDir E of
              Inl e \<Rightarrow> Inl e
            | Inr dir \<Rightarrow> Inr (filepath_Join E [dir, configFile]))
      else Inr (path c))"

definition envOpenDenied :: env where
  \<comment> \<open>the registry file cannot be opened for writing\<close>
  "envOpenDenied = env0\<lparr>os_WriteFile := (\<lambda>p data. OpenFailed ''permission denied'')\<rparr>"

definition envMkdirFails :: env where
  "envMkdirFails = env0\<lparr>os_MkdirAll := (\<lambda>p. Some ''permission denied'')\<rparr>"

definition envMarshalFails :: env where
  "envMarshalFails = env0\<lparr>yaml_emit := (\<lambda>d. Inl ''yaml: cannot marshal'')\<rparr>"

definition envNoHome :: env where
  "envNoHome = env0\<lparr>os_UserHomeDir := Inl ''$HOME is not defined''\<rparr>"

definition worldNoPath :: world where
  \<comment> \<open>a \<open>Config\<close> that did not come from \<open>Load\<close>: its path is empty\<close>
  "worldNoPath = world2\<lparr>config := (config world2)\<lparr>path := []\<rparr>\<rparr>"

definition optsTicketBang :: StartOptions where
  \<comment> \<open>a start from a ticket whose summary sanitizes to the empty slug\<close>
  "optsTicketBang = \<lparr>Description = ''!!!'', RepoPath = ''/src/app'', Connector = ''jira'',
                     TicketKey = ''PROJ-1'', TicketTitle = ''!!!''\<rparr>"

definition persisted :: "Task \<Rightarrow> Task" where
  \<comment> \<open>a task as the persisted format keeps it: the text of a time holds its instant only\<close>
  "persisted t = t\<lparr>Created := (Created t)\<lparr>monotonic := None\<rparr>\<rparr>"

definition taskNow :: Task where
  \<comment> \<open>the task \<open>Start\<close> makes for \<open>opts1\<close>: \<open>Created\<close> is \<open>time.Now()\<close>, with its clock reading\<close>
  "taskNow =
     \<lparr>ID = ''wt-61626364'', Description = ''Add Login!'', Worktree = ''/w/app/add-login'',
      Branch = ''feature/add-login'', RepoPath = ''/src/app'', Connector = [], TicketKey = [],
      Created = \<lparr>instant = 1000, monotonic = Some 5\<rparr>\<rparr>"

definition worldNow :: world where
  "worldNow = \<lparr>config = config1\<lparr>Tasks := [taskNow]\<rparr>, files = Map.empty, calls = []\<rparr>"

definition envCodec :: env where
  \<comment> \<open>a YAML library that reads the text of this registry back as the document it wrote\<close>
  "envCodec =
     env0\<lparr>yaml_parse :=
            (\<lambda>s. if s = ''wt-61626364'' @ [CHR 0x0A]
                 then Inr (docOfConfig (config worldNow))
                 else Inl ''yaml: unmarshal errors'')\<rparr>"

definition taskNewline :: Task where
  \<comment> \<open>a task whose description begins with a line break\<close>
  "taskNewline =
     \<lparr>ID = ''wt-00000001'', Description = [CHR 0x0A] @ ''fix'', Worktree = ''/w/app/fix'',
      Branch = ''feature/fix'', RepoPath = ''/src/app'', Connector = [], TicketKey = [],
      Created = \<lparr>instant = 1, monotonic = None\<rparr>\<rparr>"

definition worldNewline :: world where
  "worldNewline = \<lparr>config = config1\<lparr>Tasks := [taskNewline]\<rparr>, files = Map.empty, calls = []\<rparr>"

definition envBlockScalar :: env where
  \<comment> \<open>the YAML library on a string that begins with a line break: it writes the string as
      a block scalar, and the block scalar it writes is one it does not read\<close>
  "envBlockScalar =
     env0\<lparr>yaml_parse := (\<lambda>s. Inl ''yaml: did not find expected key'')\<rparr>"

definition freshWorld :: "env \<Rightarrow> world \<Rightarrow> world" where
  \<comment> \<open>another run of the program over the same disk: nothing of the old registry in memory\<close>
  "freshWorld E w = \<lparr>config = DefaultConfig E, files = files w, calls = []\<rparr>"

section \<open>The sanitizer\<close>

lemma hyphen_not_inClass [simp]: "\<not> inClass (CHR ''-'')"
  by (simp add: inClass_def byte_def)

lemma TrimRight_decomp: "s = TrimRight s c @ rev (takeWhile (\<lambda>d. d = c) (rev s))"
proof -
  have "rev (takeWhile (\<lambda>d. d = c) (rev s) @ dropWhile (\<lambda>d. d = c) (rev s)) = s"
    by simp
  then have "rev (dropWhile (\<lambda>d. d = c) (rev s)) @ rev (takeWhile (\<lambda>d. d = c) (rev s)) = s"
    by (simp only: rev_append)
  then show ?thesis
    by (simp only: TrimRight_def)
qed

lemma TrimRight_take: "TrimRight s c = take (length (TrimRight s c)) s"
proof -
  obtain r where "s = TrimRight s c @ r"
    using TrimRight_decomp by blast
  then have "take (length (TrimRight s c)) s = take (length (TrimRight s c)) (TrimRight s c @ r)"
    by simp
  then show ?thesis by simp
qed

lemma TrimRight_length: "length (TrimRight s c) \<le> length s"
  by (simp add: TrimRight_def length_dropWhile_le [of _ "rev s", simplified])

lemma TrimRight_hd: "TrimRight s c \<noteq> [] \<Longrightarrow> hd (TrimRight s c) = hd s"
  by (metis TrimRight_decomp hd_append2)

lemma TrimRight_last: "TrimRight s c \<noteq> [] \<Longrightarrow> last (TrimRight s c) \<noteq> c"
proof -
  assume a: "TrimRight s c \<noteq> []"
  then have n: "dropWhile (\<lambda>d. d = c) (rev s) \<noteq> []"
    by (simp add: TrimRight_def)
  have "last (TrimRight s c) = hd (dropWhile (\<lambda>d. d = c) (rev s))"
    using n by (simp add: TrimRight_def last_rev)
  moreover have "\<not> (hd (dropWhile (\<lambda>d. d = c) (rev s)) = c)"
    using n hd_dropWhile by blast
  ultimately show ?thesis by simp
qed

lemma TrimLeft_hd: "TrimLeft s c \<noteq> [] \<Longrightarrow> hd (TrimLeft s c) \<noteq> c"
  unfolding TrimLeft_def using hd_dropWhile [of "\<lambda>d. d = c" s] by blast

lemma TrimRight_id: "s = [] \<or> last s \<noteq> c \<Longrightarrow> TrimRight s c = s"
  by (cases s rule: rev_cases) (auto simp: TrimRight_def)

lemma TrimLeft_id: "s = [] \<or> hd s \<noteq> c \<Longrightarrow> TrimLeft s c = s"
  by (cases s) (auto simp: TrimLeft_def)

lemma Trim_hd: "Trim s c \<noteq> [] \<Longrightarrow> hd (Trim s c) \<noteq> c"
  unfolding Trim_def
  by (metis TrimRight_hd TrimLeft_hd TrimRight_def dropWhile.simps(1) rev.simps(1))

lemma Trim_last: "Trim s c \<noteq> [] \<Longrightarrow> last (Trim s c) \<noteq> c"
  unfolding Trim_def by (rule TrimRight_last)

lemma sep_tl: "sep (c # cs) \<Longrightarrow> sep cs"
  by (cases cs) auto

lemma sep_dropWhile: "sep s \<Longrightarrow> sep (dropWhile P s)"
  by (induction s) (auto dest: sep_tl)

lemma sep_take: "sep s \<Longrightarrow> sep (take n s)"
proof (induction s arbitrary: n rule: sep.induct)
  case 1
  then show ?case by simp
next
  case (2 c)
  then show ?case by (cases n) auto
next
  case (3 c d cs)
  show ?case
  proof (cases n)
    case 0
    then show ?thesis by simp
  next
    case (Suc m)
    show ?thesis
    proof (cases m)
      case 0
      then show ?thesis using Suc 3 by auto
    next
      case (Suc k)
      have "sep (d # cs)" using 3(2) by simp
      then have "sep (take (Suc k) (d # cs))" by (rule 3(1))
      then have "sep (d # take k cs)" by simp
      then show ?thesis using Suc \<open>n = Suc m\<close> 3(2) by simp
    qed
  qed
qed

lemma sep_TrimRight: "sep s \<Longrightarrow> sep (TrimRight s c)"
  using sep_take [of s "length (TrimRight s c)"] TrimRight_take [of s c] by simp

lemma sep_TrimLeft: "sep s \<Longrightarrow> sep (TrimLeft s c)"
  by (simp add: TrimLeft_def sep_dropWhile)

lemma sep_Trim: "sep s \<Longrightarrow> sep (Trim s c)"
  by (simp add: Trim_def sep_TrimRight sep_TrimLeft)

lemma ReplaceAllString_class: "inClass c \<Longrightarrow> ReplaceAllString (c # cs) = c # ReplaceAllString cs"
  by simp

lemma sep_Cons_class: "inClass c \<Longrightarrow> sep cs \<Longrightarrow> sep (c # cs)"
  by (cases cs) auto

lemma sep_ReplaceAllString: "sep (ReplaceAllString s)"
proof (induction s rule: ReplaceAllString.induct)
  case 1
  then show ?case by simp
next
  case (2 c cs)
  show ?case
  proof (cases "inClass c")
    case True
    then show ?thesis using 2 by (simp add: sep_Cons_class)
  next
    case False
    let ?r = "dropWhile (\<lambda>d. \<not> inClass d) cs"
    have ih: "sep (ReplaceAllString ?r)" using 2 False by simp
    have eq: "ReplaceAllString (c # cs) = CHR ''-'' # ReplaceAllString ?r"
      using False by simp
    show ?thesis
    proof (cases ?r)
      case Nil
      show ?thesis unfolding eq Nil by simp
    next
      case (Cons d ds)
      then have "inClass d" using hd_dropWhile [of "\<lambda>d. \<not> inClass d" cs] by auto
      then show ?thesis using ih unfolding eq Cons by simp
    qed
  qed
qed

lemma ReplaceAllString_sep: "sep s \<Longrightarrow> ReplaceAllString s = s"
proof (induction s rule: sep.induct)
  case 1
  then show ?case by simp
next
  case (2 c)
  then show ?case by auto
next
  case (3 c d cs)
  then show ?case by auto
qed

declare trimSpaceStop.simps [simp del]

lemma sep_chars: "sep s \<Longrightarrow> c \<in> set s \<Longrightarrow> inClass c \<or> c = CHR ''-''"
  by (induction s rule: sep.induct) auto

lemma slugchar_plain:
  "inClass c \<or> c = CHR ''-'' \<Longrightarrow> isASCII c \<and> \<not> asciiSpace c \<and> \<not> isUpper c"
  by (auto simp: inClass_def isASCII_def asciiSpace_def isUpper_def byte_def)

lemma TrimSpace_plain:
  assumes "s \<noteq> [] \<Longrightarrow> isASCII (hd s) \<and> \<not> asciiSpace (hd s)"
    and "s \<noteq> [] \<Longrightarrow> isASCII (last s) \<and> \<not> asciiSpace (last s)"
  shows "TrimSpace U s = s"
proof (cases s)
  case Nil
  then show ?thesis by (simp add: TrimSpace_def)
next
  case (Cons c cs)
  then have "trimSpaceStart U s = trimSpaceStop U s"
    using assms(1) by simp
  also have "\<dots> = s"
    using assms(2) Cons by (subst trimSpaceStop.simps) simp
  finally show ?thesis by (simp add: TrimSpace_def)
qed

lemma ToLower_plain:
  assumes "\<And>c. c \<in> set s \<Longrightarrow> isASCII c \<and> \<not> isUpper c"
  shows "ToLower U s = s"
proof -
  have "list_all isASCII s" using assms by (simp add: list_all_iff)
  moreover have "\<not> list_ex isUpper s" using assms by (simp add: list_ex_iff)
  ultimately show ?thesis by (simp add: ToLower_def)
qed

lemma Sanitize_slug_id:
  assumes "slug s"
  shows "SanitizeBranchName U s = s"
proof -
  have sp: "sep s" and len: "length s \<le> 60"
    and ends: "s \<noteq> [] \<Longrightarrow> hd s \<noteq> CHR ''-'' \<and> last s \<noteq> CHR ''-''"
    using assms by (auto simp: slug_def)
  have ch: "\<And>c. c \<in> set s \<Longrightarrow> isASCII c \<and> \<not> asciiSpace c \<and> \<not> isUpper c"
    using sep_chars [OF sp] slugchar_plain by blast
  have t: "TrimSpace U s = s"
    by (rule TrimSpace_plain) (use ch in auto)
  have l: "ToLower U s = s"
    by (rule ToLower_plain) (use ch in auto)
  have r: "ReplaceAllString s = s"
    by (rule ReplaceAllString_sep [OF sp])
  have tr: "Trim s (CHR ''-'') = s"
    using ends by (cases "s = []") (simp_all add: Trim_def TrimLeft_id TrimRight_id)
  show ?thesis
    using len by (simp add: SanitizeBranchName_def t l r tr)
qed

lemma cap_slug:
  assumes "sep s" and "s = [] \<or> hd s \<noteq> CHR ''-''" and "s = [] \<or> last s \<noteq> CHR ''-''"
  shows "slug (if length s > 60 then TrimRight (take 60 s) (CHR ''-'') else s)"
proof (cases "length s > 60")
  case False
  then show ?thesis using assms by (auto simp: slug_def)
next
  case True
  let ?t = "TrimRight (take 60 s) (CHR ''-'')"
  have "sep ?t" using assms(1) by (simp add: sep_TrimRight sep_take)
  moreover have "length ?t \<le> 60"
    using TrimRight_length [of "take 60 s" "CHR ''-''"] by simp
  moreover have "?t \<noteq> [] \<Longrightarrow> hd ?t \<noteq> CHR ''-''"
  proof -
    assume ne: "?t \<noteq> []"
    have "s \<noteq> []" using True by auto
    then have "hd (take 60 s) = hd s" by (cases s) auto
    then show ?thesis using TrimRight_hd [OF ne] assms(2) \<open>s \<noteq> []\<close> by simp
  qed
  moreover have "?t \<noteq> [] \<Longrightarrow> last ?t \<noteq> CHR ''-''"
    by (rule TrimRight_last)
  ultimately show ?thesis using True by (auto simp: slug_def)
qed

lemma Sanitize_slug: "slug (SanitizeBranchName U x)"
proof -
  let ?s = "Trim (ReplaceAllString (ToLower U (TrimSpace U x))) (CHR ''-'')"
  have "sep ?s" by (simp add: sep_Trim sep_ReplaceAllString)
  moreover have "?s = [] \<or> hd ?s \<noteq> CHR ''-''" using Trim_hd by blast
  moreover have "?s = [] \<or> last ?s \<noteq> CHR ''-''" using Trim_last by blast
  ultimately have "slug (if length ?s > 60 then TrimRight (take 60 ?s) (CHR ''-'') else ?s)"
    by (rule cap_slug)
  then show ?thesis by (simp add: SanitizeBranchName_def Let_def)
qed

text \<open>
  Claim C7. For every input string, the output of \<open>SanitizeBranchName\<close> is at most 60
  bytes long, and unless it is empty it neither starts nor ends with a hyphen.
\<close>

theorem SanitizeBranchName_bounded:
  "length (SanitizeBranchName U x) \<le> 60 \<and>
   (SanitizeBranchName U x \<noteq> [] \<longrightarrow>
      hd (SanitizeBranchName U x) \<noteq> CHR ''-'' \<and> last (SanitizeBranchName U x) \<noteq> CHR ''-'')"
  using Sanitize_slug [of U x] by (auto simp: slug_def)

theorem SanitizeBranchName_bounded_witness:
  "SanitizeBranchName asciiOnly ''---Fix Bug #123: Login Fails!  '' = ''fix-bug-123-login-fails'' \<and>
   length (SanitizeBranchName asciiOnly ''---Fix Bug #123: Login Fails!  '') \<le> 60 \<and>
   hd (SanitizeBranchName asciiOnly ''---Fix Bug #123: Login Fails!  '') \<noteq> CHR ''-'' \<and>
   last (SanitizeBranchName asciiOnly ''---Fix Bug #123: Login Fails!  '') \<noteq> CHR ''-''"
proof -
  have e: "SanitizeBranchName asciiOnly ''---Fix Bug #123: Login Fails!  '' = ''fix-bug-123-login-fails''"
    by code_simp
  then have "SanitizeBranchName asciiOnly ''---Fix Bug #123: Login Fails!  '' \<noteq> []"
    by simp
  then show ?thesis
    using SanitizeBranchName_bounded [of asciiOnly "''---Fix Bug #123: Login Fails!  ''"] e by simp
qed

text \<open>
  Claim C8. \<open>SanitizeBranchName\<close> is idempotent: sanitizing a sanitized string changes
  nothing, for every input and whatever the Unicode tables are.
\<close>

theorem SanitizeBranchName_idempotent:
  "SanitizeBranchName U (SanitizeBranchName U x) = SanitizeBranchName U x"
  by (rule Sanitize_slug_id [OF Sanitize_slug])

section \<open>The branch namer\<close>

text \<open>
  Claim C1, as stated, fails: the specification composes the sanitized ticket key with
  the sanitized summary, the code composes the lower-cased ticket key. A key with a
  byte that sanitizing would replace, such as the underscore of a Jira project key,
  tells them apart.
\<close>

theorem fromTicket_counterexample:
  "BranchNameFromTicket asciiOnly [] ''MY_PROJ-12'' ''Fix it'' = ''my_proj-12-fix-it'' \<and>
   fromTicket_spec asciiOnly [] ''MY_PROJ-12'' ''Fix it'' = ''my-proj-12-fix-it'' \<and>
   BranchNameFromTicket asciiOnly [] ''MY_PROJ-12'' ''Fix it'' \<noteq>
     fromTicket_spec asciiOnly [] ''MY_PROJ-12'' ''Fix it''"
  by code_simp

text \<open>
  Claim C1, amended. For every prefix, ticket key and summary, \<open>BranchNameFromTicket\<close>
  returns the lower-cased ticket key, a hyphen and the sanitized summary, cut to 60 bytes
  with trailing hyphens trimmed when the cut applies, after the prefix and a slash when
  the prefix is not empty. Whenever lower-casing the key already gives its sanitized form
  this is the composition of the specification, and the example of the specification
  holds.
\<close>

theorem BranchNameFromTicket_composition:
  "BranchNameFromTicket U prefix ticketKey summary =
     (if prefix = [] then [] else prefix @ ''/'') @
     cap60 (ToLower U ticketKey @ ''-'' @ SanitizeBranchName U summary) \<and>
   (ToLower U ticketKey = SanitizeBranchName U ticketKey \<longrightarrow>
      BranchNameFromTicket U prefix ticketKey summary = fromTicket_spec U prefix ticketKey summary) \<and>
   BranchNameFromTicket U ''feature'' ''PROJ-123'' ''Implement OAuth Flow'' =
     ''feature/proj-123-implement-oauth-flow''"
proof (intro conjI impI)
  show "BranchNameFromTicket U prefix ticketKey summary =
     (if prefix = [] then [] else prefix @ ''/'') @
     cap60 (ToLower U ticketKey @ ''-'' @ SanitizeBranchName U summary)"
    by (simp add: BranchNameFromTicket_def cap60_def Let_def)
next
  assume "ToLower U ticketKey = SanitizeBranchName U ticketKey"
  then show "BranchNameFromTicket U prefix ticketKey summary = fromTicket_spec U prefix ticketKey summary"
    by (simp add: BranchNameFromTicket_def fromTicket_spec_def cap60_def Let_def)
next
  show "BranchNameFromTicket U ''feature'' ''PROJ-123'' ''Implement OAuth Flow'' =
     ''feature/proj-123-implement-oauth-flow''"
    by code_simp
qed

theorem BranchNameFromTicket_composition_witness:
  "ToLower asciiOnly ''PROJ-123'' = SanitizeBranchName asciiOnly ''PROJ-123'' \<and>
   BranchNameFromTicket asciiOnly ''feature'' ''PROJ-123'' ''Implement OAuth Flow'' =
     fromTicket_spec asciiOnly ''feature'' ''PROJ-123'' ''Implement OAuth Flow''"
proof -
  have k: "ToLower asciiOnly ''PROJ-123'' = SanitizeBranchName asciiOnly ''PROJ-123''"
    by code_simp
  show ?thesis
    using BranchNameFromTicket_composition
      [of asciiOnly "''feature''" "''PROJ-123''" "''Implement OAuth Flow''"] k
    by blast
qed

section \<open>The registry\<close>

lemma Save_Tasks: "Tasks (config (snd (Save E w))) = Tasks (config w)"
  by (auto simp: Save_def MkdirAll_def WriteFile_def issue_def Let_def
      split: sum.splits option.splits write_outcome.splits prod.splits if_splits)

lemma AddTask_Tasks: "Tasks (config (snd (AddTask E w t))) = Tasks (config w) @ [t]"
  by (simp add: AddTask_def Save_Tasks)

lemma indexOfID_less: "indexOfID ts x = Some i \<Longrightarrow> i < length ts"
  by (induction ts arbitrary: i) (auto split: if_splits)

lemma RemoveTask_Tasks:
  "Tasks (config (snd (RemoveTask E w x))) =
     (case indexOfID (Tasks (config w)) x of
        None \<Rightarrow> Tasks (config w)
      | Some i \<Rightarrow> take i (Tasks (config w)) @ drop (i + 1) (Tasks (config w)))"
  by (simp add: RemoveTask_def Save_Tasks split: option.splits)

lemma distinct_map_take_drop:
  "distinct (map f xs) \<Longrightarrow> distinct (map f (take i xs @ drop (Suc i) xs))"
proof (induction xs arbitrary: i)
  case Nil
  then show ?case by simp
next
  case (Cons x xs)
  show ?case
  proof (cases i)
    case 0
    then show ?thesis using Cons.prems by simp
  next
    case (Suc j)
    have "distinct (map f (take j xs @ drop (Suc j) xs))"
      using Cons by simp
    moreover have "f x \<notin> f ` set (take j xs)" and "f x \<notin> f ` set (drop (Suc j) xs)"
      using Cons.prems by (auto dest: in_set_takeD in_set_dropD)
    ultimately show ?thesis using Suc by simp
  qed
qed

lemma RemoveTask_registry_inv:
  assumes "registry_inv (config w)"
  shows "registry_inv (config (snd (RemoveTask E w x)))"
proof (cases "indexOfID (Tasks (config w)) x")
  case None
  then show ?thesis using assms by (simp add: registry_inv_def RemoveTask_Tasks)
next
  case (Some i)
  have "distinct (map ID (take i (Tasks (config w)) @ drop (Suc i) (Tasks (config w))))"
    and "distinct (map Worktree (take i (Tasks (config w)) @ drop (Suc i) (Tasks (config w))))"
    using assms by (simp_all only: registry_inv_def distinct_map_take_drop)
  then show ?thesis
    using Some by (simp add: registry_inv_def RemoveTask_Tasks)
qed

text \<open>
  Claim C3, as stated, fails: \<open>AddTask\<close> appends whatever it is given. Adding a task
  whose id is already stored leaves two tasks with one id.
\<close>

theorem AddTask_counterexample:
  "registry_inv (config world1) \<and>
   Tasks (config (snd (AddTask env0 world1 task2))) = [task1, task2] \<and>
   ID task1 = ID task2 \<and>
   \<not> registry_inv (config (snd (AddTask env0 world1 task2)))"
  by (simp add: AddTask_Tasks registry_inv_def world1_def config1_def task1_def task2_def)

text \<open>
  Claim C3, amended. The registry checks nothing on \<open>AddTask\<close>: on a registry with no
  shared id and no shared worktree path, the result of \<open>AddTask\<close> has that property
  exactly when the id and the worktree path of the new task are stored nowhere yet;
  \<open>RemoveTask\<close> always keeps it.
\<close>

theorem registry_inv_preserved:
  assumes "registry_inv (config w)"
  shows "(registry_inv (config (snd (AddTask E w t))) \<longleftrightarrow>
            ID t \<notin> ID ` set (Tasks (config w)) \<and> Worktree t \<notin> Worktree ` set (Tasks (config w))) \<and>
         registry_inv (config (snd (RemoveTask E w x)))"
proof
  show "registry_inv (config (snd (AddTask E w t))) \<longleftrightarrow>
            ID t \<notin> ID ` set (Tasks (config w)) \<and> Worktree t \<notin> Worktree ` set (Tasks (config w))"
    using assms by (auto simp: registry_inv_def AddTask_Tasks)
next
  show "registry_inv (config (snd (RemoveTask E w x)))"
    using assms by (rule RemoveTask_registry_inv)
qed

theorem registry_inv_preserved_witness:
  "registry_inv (config world1) \<and>
   registry_inv (config (snd (AddTask env0 world1 (task2\<lparr>ID := ''wt-00000002''\<rparr>)))) \<and>
   registry_inv (config (snd (RemoveTask env0 world1 ''wt-00000001'')))"
proof -
  have i: "registry_inv (config world1)"
    by (simp add: registry_inv_def world1_def config1_def)
  have f: "ID (task2\<lparr>ID := ''wt-00000002''\<rparr>) \<notin> ID ` set (Tasks (config world1)) \<and>
      Worktree (task2\<lparr>ID := ''wt-00000002''\<rparr>) \<notin> Worktree ` set (Tasks (config world1))"
    by (simp add: world1_def config1_def task1_def task2_def)
  show ?thesis
    using registry_inv_preserved [OF i, of env0 "task2\<lparr>ID := ''wt-00000002''\<rparr>" "''wt-00000001''"] i f
    by blast
qed

subsection \<open>What a save leaves on disk\<close>

text \<open>
  Claim C2, as stated, fails: \<open>Save\<close> writes the registry file in place with
  \<open>os.WriteFile\<close>, which truncates the file when it opens it. When the write fails after
  four bytes, the save fails and the file holds those four bytes: neither the old state
  nor the new one.
\<close>

theorem Save_counterexample:
  "fst (Save envDiskFull world2) = Some (WriteFileError ''no space left on device'') \<and>
   files world2 ''/home/u/.wt/config.yaml'' = Some (''wt-00000001'' @ [CHR 0x0A]) \<and>
   yaml_emit envDiskFull (docOfConfig (config world2)) =
     Inr (''wt-00000001'' @ [CHR 0x0A] @ ''wt-00000002'' @ [CHR 0x0A]) \<and>
   files (snd (Save envDiskFull world2)) ''/home/u/.wt/config.yaml'' = Some ''wt-0''"
  by (simp add: Save_def MkdirAll_def WriteFile_def issue_def Let_def envDiskFull_def env0_def
      world2_def world1_def config1_def task1_def task2_def task3_def docOfConfig_def
      docOfTask_def omitempty_def idLines_def orElse_def)

text \<open>
  Claim C2, amended. What a save leaves behind is fixed by where it fails. When the path
  cannot be resolved, nothing has happened. Otherwise the configuration directory is
  created first (so a directory may be new even when the save fails). When that, the
  marshalling or the opening of the file fails, the save fails and the contents of every
  file are as they were. When the write fails after the file was opened, the save fails
  and the registry file holds a prefix of the new state, every other file as it was.
  When the write succeeds, the save succeeds and the registry file holds the full new
  state, the marshalled registry that was saved, every other file as it was. The registry
  in memory is never changed but for its path.
\<close>

theorem Save_disk_state:
  "(\<forall>e. savePath E (config w) = Inl e \<longrightarrow> Save E w = (Some e, w)) \<and>
   (\<forall>p w1. savePath E (config w) = Inr p \<and>
        w1 = w\<lparr>config := (config w)\<lparr>path := p\<rparr>,
               calls := calls w @ [OsMkdirAll (filepath_Dir E p)]\<rparr> \<longrightarrow>
      (\<forall>e. os_MkdirAll E (filepath_Dir E p) = Some e \<longrightarrow>
         Save E w = (Some (CreateConfigDirFailed e), w1)) \<and>
      (\<forall>e. os_MkdirAll E (filepath_Dir E p) = None \<and>
           yaml_emit E (docOfConfig (config w)) = Inl e \<longrightarrow>
         Save E w = (Some (MarshalConfigFailed e), w1)) \<and>
      (\<forall>data e. os_MkdirAll E (filepath_Dir E p) = None \<and>
           yaml_emit E (docOfConfig (config w)) = Inr data \<and>
           os_WriteFile E p data = OpenFailed e \<longrightarrow>
         Save E w = (Some (WriteFileError e), w1\<lparr>calls := calls w1 @ [OsWriteFile p data]\<rparr>)) \<and>
      (\<forall>data n e. os_MkdirAll E (filepath_Dir E p) = None \<and>
           yaml_emit E (docOfConfig (config w)) = Inr data \<and>
           os_WriteFile E p data = WriteFailed n e \<longrightarrow>
         Save E w = (Some (WriteFileError e),
                     w1\<lparr>calls := calls w1 @ [OsWriteFile p data],
                        files := (files w)(p \<mapsto> take n data)\<rparr>)) \<and>
      (\<forall>data. os_MkdirAll E (filepath_Dir E p) = None \<and>
           yaml_emit E (docOfConfig (config w)) = Inr data \<and>
           os_WriteFile E p data = Written \<longrightarrow>
         Save E w = (None,
                     w1\<lparr>calls := calls w1 @ [OsWriteFile p data],
                        files := (files w)(p \<mapsto> data)\<rparr>)))"
proof (intro conjI allI impI)
  fix e
  assume "savePath E (config w) = Inl e"
  then show "Save E w = (Some e, w)"
    by (auto simp: savePath_def Save_def split: if_splits sum.splits)
next
  fix p w1 e
  assume a: "savePath E (config w) = Inr p \<and>
        w1 = w\<lparr>config := (config w)\<lparr>path := p\<rparr>,
               calls := calls w @ [OsMkdirAll (filepath_Dir E p)]\<rparr>"
    and m: "os_MkdirAll E (filepath_Dir E p) = Some e"
  show "Save E w = (Some (CreateConfigDirFailed e), w1)"
    using a m
    by (auto simp: savePath_def Save_def MkdirAll_def issue_def Let_def docOfConfig_def
        split: if_splits sum.splits)
next
  fix p w1 e
  assume a: "savePath E (config w) = Inr p \<and>
        w1 = w\<lparr>config := (config w)\<lparr>path := p\<rparr>,
               calls := calls w @ [OsMkdirAll (filepath_Dir E p)]\<rparr>"
    and m: "os_MkdirAll E (filepath_Dir E p) = None \<and>
           yaml_emit E (docOfConfig (config w)) = Inl e"
  show "Save E w = (Some (MarshalConfigFailed e), w1)"
    using a m
    by (auto simp: savePath_def Save_def MkdirAll_def issue_def Let_def docOfConfig_def
        split: if_splits sum.splits)
next
  fix p w1 data e
  assume a: "savePath E (config w) = Inr p \<and>
        w1 = w\<lparr>config := (config w)\<lparr>path := p\<rparr>,
               calls := calls w @ [OsMkdirAll (filepath_Dir E p)]\<rparr>"
    and m: "os_MkdirAll E (filepath_Dir E p) = None \<and>
           yaml_emit E (docOfConfig (config w)) = Inr data \<and>
           os_WriteFile E p data = OpenFailed e"
  show "Save E w = (Some (WriteFileError e), w1\<lparr>calls := calls w1 @ [OsWriteFile p data]\<rparr>)"
    using a m
    by (auto simp: savePath_def Save_def MkdirAll_def WriteFile_def issue_def Let_def docOfConfig_def
        split: if_splits sum.splits)
next
  fix p w1 data n e
  assume a: "savePath E (config w) = Inr p \<and>
        w1 = w\<lparr>config := (config w)\<lparr>path := p\<rparr>,
               calls := calls w @ [OsMkdirAll (filepath_Dir E p)]\<rparr>"
    and m: "os_MkdirAll E (filepath_Dir E p) = None \<and>
           yaml_emit E (docOfConfig (config w)) = Inr data \<and>
           os_WriteFile E p data = WriteFailed n e"
  show "Save E w = (Some (WriteFileError e),
                     w1\<lparr>calls := calls w1 @ [OsWriteFile p data],
                        files := (files w)(p \<mapsto> take n data)\<rparr>)"
    using a m
    by (auto simp: savePath_def Save_def MkdirAll_def WriteFile_def issue_def Let_def docOfConfig_def
        split: if_splits sum.splits)
next
  fix p w1 data
  assume a: "savePath E (config w) = Inr p \<and>
        w1 = w\<lparr>config := (config w)\<lparr>path := p\<rparr>,
               calls := calls w @ [OsMkdirAll (filepath_Dir E p)]\<rparr>"
    and m: "os_MkdirAll E (filepath_Dir E p) = None \<and>
           yaml_emit E (docOfConfig (config w)) = Inr data \<and>
           os_WriteFile E p data = Written"
  show "Save E w = (None,
                     w1\<lparr>calls := calls w1 @ [OsWriteFile p data],
                        files := (files w)(p \<mapsto> data)\<rparr>)"
    using a m
    by (auto simp: savePath_def Save_def MkdirAll_def WriteFile_def issue_def Let_def docOfConfig_def
        split: if_splits sum.splits)
qed

theorem Save_disk_state_witness:
  "Save envNoHome worldNoPath = (Some (HomeDirUnknown ''$HOME is not defined''), worldNoPath) \<and>
   fst (Save envMkdirFails world2) = Some (CreateConfigDirFailed ''permission denied'') \<and>
   files (snd (Save envMkdirFails world2)) = files world2 \<and>
   fst (Save envMarshalFails world2) = Some (MarshalConfigFailed ''yaml: cannot marshal'') \<and>
   files (snd (Save envMarshalFails world2)) = files world2 \<and>
   fst (Save envOpenDenied world2) = Some (WriteFileError ''permission denied'') \<and>
   files (snd (Save envOpenDenied world2)) = files world2 \<and>
   fst (Save envDiskFull world2) = Some (WriteFileError ''no space left on device'') \<and>
   files (snd (Save envDiskFull world2)) = (files world2)(''/home/u/.wt/config.yaml'' \<mapsto> ''wt-0'') \<and>
   fst (Save env0 world2) = None \<and>
   files (snd (Save env0 world2)) =
     (files world2)(''/home/u/.wt/config.yaml'' \<mapsto>
        ''wt-00000001'' @ [CHR 0x0A] @ ''wt-00000002'' @ [CHR 0x0A]) \<and>
   config (snd (Save env0 world2)) = config world2"
proof -
  let ?p = "''/home/u/.wt/config.yaml''"
  let ?data = "''wt-00000001'' @ [CHR 0x0A] @ ''wt-00000002'' @ [CHR 0x0A]"
  have nh: "savePath envNoHome (config worldNoPath) = Inl (HomeDirUnknown ''$HOME is not defined'')"
    by (simp add: savePath_def ConfigDir_def envNoHome_def env0_def worldNoPath_def)
  have c1: "Save envNoHome worldNoPath = (Some (HomeDirUnknown ''$HOME is not defined''), worldNoPath)"
    by (rule conjunct1 [OF Save_disk_state [of envNoHome worldNoPath], rule_format, OF nh])
  have pc: "path (config world2) = ?p"
    by (simp add: world2_def world1_def config1_def)
  have cp: "(config world2)\<lparr>path := ?p\<rparr> = config world2"
    by (simp add: world2_def world1_def config1_def)
  have dt: "idLines (docOfConfig (config world2)) = ?data"
    by (simp add: world2_def world1_def config1_def task1_def task2_def
      task3_def docOfConfig_def docOfTask_def omitempty_def idLines_def orElse_def)
  have sp: "\<And>E. savePath E (config world2) = Inr ?p"
    by (simp add: savePath_def pc)
  have c2: "Save envMkdirFails world2 =
      (Some (CreateConfigDirFailed ''permission denied''),
       world2\<lparr>config := (config world2)\<lparr>path := ?p\<rparr>,
              calls := calls world2 @ [OsMkdirAll (filepath_Dir envMkdirFails ?p)]\<rparr>)"
  proof -
    have m: "os_MkdirAll envMkdirFails (filepath_Dir envMkdirFails ?p) = Some ''permission denied''"
      by (simp add: envMkdirFails_def)
    have a: "savePath envMkdirFails (config world2) = Inr ?p \<and>
        world2\<lparr>config := (config world2)\<lparr>path := ?p\<rparr>,
               calls := calls world2 @ [OsMkdirAll (filepath_Dir envMkdirFails ?p)]\<rparr> =
        world2\<lparr>config := (config world2)\<lparr>path := ?p\<rparr>,
               calls := calls world2 @ [OsMkdirAll (filepath_Dir envMkdirFails ?p)]\<rparr>"
      by (simp add: sp)
    note b = conjunct2 [OF Save_disk_state [of envMkdirFails world2], rule_format, OF a]
    show ?thesis
      by (rule conjunct1 [OF b, rule_format, OF m])
  qed
  have c3: "Save envMarshalFails world2 =
      (Some (MarshalConfigFailed ''yaml: cannot marshal''),
       world2\<lparr>config := (config world2)\<lparr>path := ?p\<rparr>,
              calls := calls world2 @ [OsMkdirAll (filepath_Dir envMarshalFails ?p)]\<rparr>)"
  proof -
    have m: "os_MkdirAll envMarshalFails (filepath_Dir envMarshalFails ?p) = None \<and>
        yaml_emit envMarshalFails (docOfConfig (config world2)) = Inl ''yaml: cannot marshal''"
      by (simp add: envMarshalFails_def env0_def)
    have a: "savePath envMarshalFails (config world2) = Inr ?p \<and>
        world2\<lparr>config := (config world2)\<lparr>path := ?p\<rparr>,
               calls := calls world2 @ [OsMkdirAll (filepath_Dir envMarshalFails ?p)]\<rparr> =
        world2\<lparr>config := (config world2)\<lparr>path := ?p\<rparr>,
               calls := calls world2 @ [OsMkdirAll (filepath_Dir envMarshalFails ?p)]\<rparr>"
      by (simp add: sp)
    note b = conjunct2 [OF Save_disk_state [of envMarshalFails world2], rule_format, OF a]
    show ?thesis
      by (rule conjunct1 [OF conjunct2, OF b, rule_format, OF m])
  qed
  have c4: "Save envOpenDenied world2 =
      (Some (WriteFileError ''permission denied''),
       world2\<lparr>config := (config world2)\<lparr>path := ?p\<rparr>,
              calls := calls world2 @ [OsMkdirAll (filepath_Dir envOpenDenied ?p)]\<rparr>
         \<lparr>calls := calls (world2\<lparr>config := (config world2)\<lparr>path := ?p\<rparr>,
              calls := calls world2 @ [OsMkdirAll (filepath_Dir envOpenDenied ?p)]\<rparr>)
            @ [OsWriteFile ?p ?data]\<rparr>)"
  proof -
    have m: "os_MkdirAll envOpenDenied (filepath_Dir envOpenDenied ?p) = None \<and>
        yaml_emit envOpenDenied (docOfConfig (config world2)) = Inr ?data \<and>
        os_WriteFile envOpenDenied ?p ?data = OpenFailed ''permission denied''"
      using dt by (simp add: envOpenDenied_def env0_def)
    have a: "savePath envOpenDenied (config world2) = Inr ?p \<and>
        world2\<lparr>config := (config world2)\<lparr>path := ?p\<rparr>,
               calls := calls world2 @ [OsMkdirAll (filepath_Dir envOpenDenied ?p)]\<rparr> =
        world2\<lparr>config := (config world2)\<lparr>path := ?p\<rparr>,
               calls := calls world2 @ [OsMkdirAll (filepath_Dir envOpenDenied ?p)]\<rparr>"
      by (simp add: sp)
    note b = conjunct2 [OF Save_disk_state [of envOpenDenied world2], rule_format, OF a]
    show ?thesis
      by (rule conjunct1 [OF conjunct2 [OF conjunct2], OF b, rule_format, OF m])
  qed
  have c5: "Save envDiskFull world2 =
      (Some (WriteFileError ''no space left on device''),
       world2\<lparr>config := (config world2)\<lparr>path := ?p\<rparr>,
              calls := calls world2 @ [OsMkdirAll (filepath_Dir envDiskFull ?p)]\<rparr>
         \<lparr>calls := calls (world2\<lparr>config := (config world2)\<lparr>path := ?p\<rparr>,
              calls := calls world2 @ [OsMkdirAll (filepath_Dir envDiskFull ?p)]\<rparr>)
            @ [OsWriteFile ?p ?data],
          files := (files world2)(?p \<mapsto> take 4 ?data)\<rparr>)"
  proof -
    have m: "os_MkdirAll envDiskFull (filepath_Dir envDiskFull ?p) = None \<and>
        yaml_emit envDiskFull (docOfConfig (config world2)) = Inr ?data \<and>
        os_WriteFile envDiskFull ?p ?data = WriteFailed 4 ''no space left on device''"
      using dt by (simp add: envDiskFull_def env0_def)
    have a: "savePath envDiskFull (config world2) = Inr ?p \<and>
        world2\<lparr>config := (config world2)\<lparr>path := ?p\<rparr>,
               calls := calls world2 @ [OsMkdirAll (filepath_Dir envDiskFull ?p)]\<rparr> =
        world2\<lparr>config := (config world2)\<lparr>path := ?p\<rparr>,
               calls := calls world2 @ [OsMkdirAll (filepath_Dir envDiskFull ?p)]\<rparr>"
      by (simp add: sp)
    note b = conjunct2 [OF Save_disk_state [of envDiskFull world2], rule_format, OF a]
    show ?thesis
      by (rule conjunct1 [OF conjunct2 [OF conjunct2 [OF conjunct2]], OF b, rule_format, OF m])
  qed
  have c6: "Save env0 world2 =
      (None,
       world2\<lparr>config := (config world2)\<lparr>path := ?p\<rparr>,
              calls := calls world2 @ [OsMkdirAll (filepath_Dir env0 ?p)]\<rparr>
         \<lparr>calls := calls (world2\<lparr>config := (config world2)\<lparr>path := ?p\<rparr>,
              calls := calls world2 @ [OsMkdirAll (filepath_Dir env0 ?p)]\<rparr>)
            @ [OsWriteFile ?p ?data],
          files := (files world2)(?p \<mapsto> ?data)\<rparr>)"
  proof -
    have m: "os_MkdirAll env0 (filepath_Dir env0 ?p) = None \<and>
        yaml_emit env0 (docOfConfig (config world2)) = Inr ?data \<and>
        os_WriteFile env0 ?p ?data = Written"
      using dt by (simp add: env0_def)
    have a: "savePath env0 (config world2) = Inr ?p \<and>
        world2\<lparr>config := (config world2)\<lparr>path := ?p\<rparr>,
               calls := calls world2 @ [OsMkdirAll (filepath_Dir env0 ?p)]\<rparr> =
        world2\<lparr>config := (config world2)\<lparr>path := ?p\<rparr>,
               calls := calls world2 @ [OsMkdirAll (filepath_Dir env0 ?p)]\<rparr>"
      by (simp add: sp)
    note b = conjunct2 [OF Save_disk_state [of env0 world2], rule_format, OF a]
    show ?thesis
      by (rule conjunct2 [OF conjunct2 [OF conjunct2 [OF conjunct2]], OF b, rule_format, OF m])
  qed
  show ?thesis
    unfolding c1 c2 c3 c4 c5 c6 by (simp add: cp)
qed

section \<open>Starting a task\<close>

lemma Save_calls:
  "\<exists>cs. calls (snd (Save E w)) = calls w @ cs \<and>
        (\<forall>c \<in> set cs. (\<exists>p. c = OsMkdirAll p) \<or> (\<exists>p d. c = OsWriteFile p d))"
  by (auto simp: Save_def MkdirAll_def WriteFile_def issue_def Let_def
      split: sum.splits option.splits write_outcome.splits prod.splits if_splits)

lemma AddTask_calls:
  "\<exists>cs. calls (snd (AddTask E w t)) = calls w @ cs \<and>
        (\<forall>c \<in> set cs. (\<exists>p. c = OsMkdirAll p) \<or> (\<exists>p d. c = OsWriteFile p d))"
  using Save_calls [of E "w\<lparr>config := (config w)\<lparr>Tasks := Tasks (config w) @ [t]\<rparr>\<rparr>"]
  by (simp add: AddTask_def)

lemma Start_no_repo:
  assumes "git_show_toplevel E (RepoPath opts) = None"
  shows "Start E w opts = (Inl (NotAGitRepository (RepoPath opts)), issue (GitShowToplevel (RepoPath opts)) w)"
  using assms by (simp add: Start_def RepoName_def Let_def)

lemma Start_branch_exists:
  assumes "git_show_toplevel E (RepoPath opts) = Some out"
      and "git_verify E (RepoPath opts) (startBranch E (config w) opts)"
  shows "Start E w opts =
           (Inl (BranchAlreadyExists (startBranch E (config w) opts)),
            w\<lparr>calls := calls w @ [GitShowToplevel (RepoPath opts),
                                   GitVerify (RepoPath opts) (startBranch E (config w) opts)]\<rparr>)"
  using assms by (simp add: Start_def RepoName_def BranchExists_def issue_def Let_def)

lemma Start_mkdir_fails:
  assumes "git_show_toplevel E (RepoPath opts) = Some out"
      and "\<not> git_verify E (RepoPath opts) (startBranch E (config w) opts)"
      and "p = filepath_Join E [WorktreesBase (config w), filepath_Base E (TrimSpace (uni E) out),
                               SanitizeBranchName (uni E) (Description opts)]"
      and "os_MkdirAll E (filepath_Dir E p) = Some e"
  shows "Start E w opts =
           (Inl (CreateWorktreeDirFailed e),
            w\<lparr>calls := calls w @ [GitShowToplevel (RepoPath opts),
                                   GitVerify (RepoPath opts) (startBranch E (config w) opts),
                                   OsMkdirAll (filepath_Dir E p)]\<rparr>)"
  using assms
  by (simp add: Start_def RepoName_def BranchExists_def MkdirAll_def issue_def Let_def)

lemma Start_create_fails:
  assumes "git_show_toplevel E (RepoPath opts) = Some out"
      and "\<not> git_verify E (RepoPath opts) (startBranch E (config w) opts)"
      and "p = filepath_Join E [WorktreesBase (config w), filepath_Base E (TrimSpace (uni E) out),
                               SanitizeBranchName (uni E) (Description opts)]"
      and "os_MkdirAll E (filepath_Dir E p) = None"
      and "git_worktree_add E (RepoPath opts) p (startBranch E (config w) opts) = Some e"
  shows "Start E w opts =
           (Inl (CreateWorktreeFailed e),
            w\<lparr>calls := calls w @ [GitShowToplevel (RepoPath opts),
                                   GitVerify (RepoPath opts) (startBranch E (config w) opts),
                                   OsMkdirAll (filepath_Dir E p),
                                   GitWorktreeAdd (RepoPath opts) p (startBranch E (config w) opts)]\<rparr>)"
  using assms
  by (simp add: Start_def RepoName_def BranchExists_def MkdirAll_def Create_def issue_def Let_def)

lemma Start_created:
  assumes "git_show_toplevel E (RepoPath opts) = Some out"
      and "\<not> git_verify E (RepoPath opts) (startBranch E (config w) opts)"
      and "p = filepath_Join E [WorktreesBase (config w), filepath_Base E (TrimSpace (uni E) out),
                               SanitizeBranchName (uni E) (Description opts)]"
      and "os_MkdirAll E (filepath_Dir E p) = None"
      and "git_worktree_add E (RepoPath opts) p (startBranch E (config w) opts) = None"
      and "t = \<lparr>ID = generateID E, Description = Description opts, Worktree = p,
                Branch = startBranch E (config w) opts, RepoPath = RepoPath opts,
                Connector = Connector opts, TicketKey = TicketKey opts, Created = time_Now E\<rparr>"
      and "w1 = w\<lparr>calls := calls w @ [GitShowToplevel (RepoPath opts),
                                   GitVerify (RepoPath opts) (startBranch E (config w) opts),
                                   OsMkdirAll (filepath_Dir E p),
                                   GitWorktreeAdd (RepoPath opts) p (startBranch E (config w) opts)]\<rparr>"
  shows "Start E w opts =
           (case fst (AddTask E w1 t) of
              Some e \<Rightarrow> (Inl (TaskNotSaved e), snd (AddTask E w1 t))
            | None \<Rightarrow> (Inr t, snd (AddTask E w1 t)))"
  using assms
  by (simp add: Start_def RepoName_def BranchExists_def MkdirAll_def Create_def issue_def Let_def
      split: prod.splits option.splits)

text \<open>
  Claim C5. When the repository resolves and the branch probe reports that the computed
  branch name exists, \<open>Start\<close> fails with the collision error that names the branch; it
  has issued the two read-only probes and nothing else (no directory creation, no
  \<open>git worktree add\<close>, no write), and the registry and the files are as they were.
\<close>

theorem Start_refuses_existing_branch:
  assumes "git_show_toplevel E (RepoPath opts) = Some out"
      and "git_verify E (RepoPath opts) (startBranch E (config w) opts)"
  shows "fst (Start E w opts) = Inl (BranchAlreadyExists (startBranch E (config w) opts)) \<and>
         calls (snd (Start E w opts)) =
           calls w @ [GitShowToplevel (RepoPath opts),
                      GitVerify (RepoPath opts) (startBranch E (config w) opts)] \<and>
         config (snd (Start E w opts)) = config w \<and>
         files (snd (Start E w opts)) = files w"
  by (simp add: Start_branch_exists [OF assms])

theorem Start_refuses_existing_branch_witness:
  "git_show_toplevel envBranchTaken (RepoPath opts1) = Some (''/src/app'' @ [CHR 0x0A]) \<and>
   git_verify envBranchTaken (RepoPath opts1) (startBranch envBranchTaken (config world1) opts1) \<and>
   fst (Start envBranchTaken world1 opts1) = Inl (BranchAlreadyExists ''feature/add-login'') \<and>
   calls (snd (Start envBranchTaken world1 opts1)) =
     [GitShowToplevel ''/src/app'', GitVerify ''/src/app'' ''feature/add-login''] \<and>
   config (snd (Start envBranchTaken world1 opts1)) = config world1 \<and>
   files (snd (Start envBranchTaken world1 opts1)) = files world1"
proof -
  have b: "startBranch envBranchTaken (config world1) opts1 = ''feature/add-login''"
    by code_simp
  have t: "git_show_toplevel envBranchTaken (RepoPath opts1) = Some (''/src/app'' @ [CHR 0x0A])"
    by (simp add: envBranchTaken_def env0_def opts1_def)
  have v: "git_verify envBranchTaken (RepoPath opts1) (startBranch envBranchTaken (config world1) opts1)"
    unfolding b by (simp add: envBranchTaken_def env0_def)
  have c: "calls world1 = []"
    by (simp add: world1_def)
  have r: "RepoPath opts1 = ''/src/app''"
    by (simp add: opts1_def)
  show ?thesis
    using Start_refuses_existing_branch [OF t v, of ] t v b c r by simp
qed

lemma issued_append: "calls w' = calls w @ cs \<Longrightarrow> issued w w' = set cs"
  by (simp add: issued_def)

lemma Start_issued_path:
  assumes "GitWorktreeAdd repo p b \<in> issued w (snd (Start E w opts))"
  shows "\<exists>out. git_show_toplevel E (RepoPath opts) = Some out \<and>
           p = filepath_Join E [WorktreesBase (config w), filepath_Base E (TrimSpace (uni E) out),
                                SanitizeBranchName (uni E) (Description opts)]"
proof (cases "git_show_toplevel E (RepoPath opts)")
  case None
  then show ?thesis
    using assms by (simp add: Start_no_repo issue_def issued_def)
next
  case (Some out)
  let ?b = "startBranch E (config w) opts"
  let ?p = "filepath_Join E [WorktreesBase (config w), filepath_Base E (TrimSpace (uni E) out),
                             SanitizeBranchName (uni E) (Description opts)]"
  show ?thesis
  proof (cases "git_verify E (RepoPath opts) ?b")
    case True
    then show ?thesis
      using assms Some by (simp add: Start_branch_exists issued_def)
  next
    case False
    show ?thesis
    proof (cases "os_MkdirAll E (filepath_Dir E ?p)")
      case (Some e)
      then show ?thesis
        using assms \<open>git_show_toplevel E (RepoPath opts) = Some out\<close> False
        by (simp add: Start_mkdir_fails [where out = out and p = ?p] issued_def)
    next
      case None
      show ?thesis
      proof (cases "git_worktree_add E (RepoPath opts) ?p ?b")
        case (Some e)
        then show ?thesis
          using assms \<open>git_show_toplevel E (RepoPath opts) = Some out\<close> False None
          by (simp add: Start_create_fails [where out = out and p = ?p] issued_def)
      next
        case add: None
        let ?t = "\<lparr>ID = generateID E, Description = Description opts, Worktree = ?p,
                Branch = ?b, RepoPath = RepoPath opts,
                Connector = Connector opts, TicketKey = TicketKey opts, Created = time_Now E\<rparr>"
        let ?w1 = "w\<lparr>calls := calls w @ [GitShowToplevel (RepoPath opts),
                                   GitVerify (RepoPath opts) ?b,
                                   OsMkdirAll (filepath_Dir E ?p),
                                   GitWorktreeAdd (RepoPath opts) ?p ?b]\<rparr>"
        have st: "snd (Start E w opts) = snd (AddTask E ?w1 ?t)"
          using Start_created [OF \<open>git_show_toplevel E (RepoPath opts) = Some out\<close> False refl None add refl refl]
          by (simp split: option.splits)
        obtain cs where cs: "calls (snd (AddTask E ?w1 ?t)) = calls ?w1 @ cs"
          and os: "\<forall>c \<in> set cs. (\<exists>p. c = OsMkdirAll p) \<or> (\<exists>p d. c = OsWriteFile p d)"
          using AddTask_calls by blast
        have "issued w (snd (Start E w opts)) =
            set ([GitShowToplevel (RepoPath opts), GitVerify (RepoPath opts) ?b,
                  OsMkdirAll (filepath_Dir E ?p), GitWorktreeAdd (RepoPath opts) ?p ?b] @ cs)"
          by (rule issued_append) (simp add: st cs)
        then have "p = ?p"
          using assms os by auto
        then show ?thesis
          using \<open>git_show_toplevel E (RepoPath opts) = Some out\<close> by simp
      qed
    qed
  qed
qed

lemma Start_task:
  assumes "Start E w opts = (Inr t, w')"
  shows "\<exists>out. git_show_toplevel E (RepoPath opts) = Some out \<and>
           Worktree t = filepath_Join E [WorktreesBase (config w), filepath_Base E (TrimSpace (uni E) out),
                                SanitizeBranchName (uni E) (Description opts)] \<and>
           Branch t = startBranch E (config w) opts \<and>
           GitWorktreeAdd (RepoPath opts) (Worktree t) (Branch t) \<in> issued w w'"
proof (cases "git_show_toplevel E (RepoPath opts)")
  case None
  then show ?thesis
    using assms by (simp add: Start_no_repo)
next
  case (Some out)
  let ?b = "startBranch E (config w) opts"
  let ?p = "filepath_Join E [WorktreesBase (config w), filepath_Base E (TrimSpace (uni E) out),
                             SanitizeBranchName (uni E) (Description opts)]"
  show ?thesis
  proof (cases "git_verify E (RepoPath opts) ?b")
    case True
    then show ?thesis
      using assms Some by (simp add: Start_branch_exists)
  next
    case False
    show ?thesis
    proof (cases "os_MkdirAll E (filepath_Dir E ?p)")
      case (Some e)
      then show ?thesis
        using assms \<open>git_show_toplevel E (RepoPath opts) = Some out\<close> False
        by (simp add: Start_mkdir_fails [where out = out and p = ?p])
    next
      case None
      show ?thesis
      proof (cases "git_worktree_add E (RepoPath opts) ?p ?b")
        case (Some e)
        then show ?thesis
          using assms \<open>git_show_toplevel E (RepoPath opts) = Some out\<close> False None
          by (simp add: Start_create_fails [where out = out and p = ?p])
      next
        case add: None
        let ?t = "\<lparr>ID = generateID E, Description = Description opts, Worktree = ?p,
                Branch = ?b, RepoPath = RepoPath opts,
                Connector = Connector opts, TicketKey = TicketKey opts, Created = time_Now E\<rparr>"
        let ?w1 = "w\<lparr>calls := calls w @ [GitShowToplevel (RepoPath opts),
                                   GitVerify (RepoPath opts) ?b,
                                   OsMkdirAll (filepath_Dir E ?p),
                                   GitWorktreeAdd (RepoPath opts) ?p ?b]\<rparr>"
        have st: "Start E w opts =
            (case fst (AddTask E ?w1 ?t) of
               Some e \<Rightarrow> (Inl (TaskNotSaved e), snd (AddTask E ?w1 ?t))
             | None \<Rightarrow> (Inr ?t, snd (AddTask E ?w1 ?t)))"
          by (rule Start_created [OF \<open>git_show_toplevel E (RepoPath opts) = Some out\<close> False refl None add refl refl])
        have t: "t = ?t" and w': "w' = snd (AddTask E ?w1 ?t)"
          using assms st by (auto split: option.splits)
        obtain cs where cs: "calls (snd (AddTask E ?w1 ?t)) = calls ?w1 @ cs"
          using AddTask_calls by blast
        have "issued w w' =
            set ([GitShowToplevel (RepoPath opts), GitVerify (RepoPath opts) ?b,
                  OsMkdirAll (filepath_Dir E ?p), GitWorktreeAdd (RepoPath opts) ?p ?b] @ cs)"
          by (rule issued_append) (simp add: w' cs)
        then show ?thesis
          using \<open>git_show_toplevel E (RepoPath opts) = Some out\<close> t by simp
      qed
    qed
  qed
qed

text \<open>
  Claim C10. The worktree path of a start, by description or by ticket, is the join of
  \<open>WorktreesBase\<close>, the repository name and the sanitized description: it is the path of
  the task a successful start returns and the path of every \<open>git worktree add\<close> a start
  issues. The ticket key and the branch prefix have no part in it, so two starts in
  the same repository and under the same base whose descriptions sanitize to the same
  slug hand git the same directory.
\<close>

theorem Start_worktree_path:
  assumes "Start E w opts = (r, w')"
  shows "(\<forall>t. r = Inr t \<longrightarrow>
            (\<exists>out. git_show_toplevel E (RepoPath opts) = Some out \<and>
               Worktree t = filepath_Join E [WorktreesBase (config w),
                              filepath_Base E (TrimSpace (uni E) out),
                              SanitizeBranchName (uni E) (Description opts)])) \<and>
         (\<forall>repo p b. GitWorktreeAdd repo p b \<in> issued w w' \<longrightarrow>
            (\<exists>out. git_show_toplevel E (RepoPath opts) = Some out \<and>
               p = filepath_Join E [WorktreesBase (config w),
                     filepath_Base E (TrimSpace (uni E) out),
                     SanitizeBranchName (uni E) (Description opts)])) \<and>
         (\<forall>w2 opts2 r2 w2' repo p b repo2 p2 b2.
            Start E w2 opts2 = (r2, w2') \<and>
            RepoPath opts2 = RepoPath opts \<and>
            WorktreesBase (config w2) = WorktreesBase (config w) \<and>
            SanitizeBranchName (uni E) (Description opts2) = SanitizeBranchName (uni E) (Description opts) \<and>
            GitWorktreeAdd repo p b \<in> issued w w' \<and>
            GitWorktreeAdd repo2 p2 b2 \<in> issued w2 w2' \<longrightarrow> p2 = p)"
proof (intro conjI allI impI)
  fix t
  assume "r = Inr t"
  then have "Start E w opts = (Inr t, w')" using assms by simp
  then show "\<exists>out. git_show_toplevel E (RepoPath opts) = Some out \<and>
               Worktree t = filepath_Join E [WorktreesBase (config w),
                              filepath_Base E (TrimSpace (uni E) out),
                              SanitizeBranchName (uni E) (Description opts)]"
    using Start_task by blast
next
  fix repo p b
  assume "GitWorktreeAdd repo p b \<in> issued w w'"
  then have "GitWorktreeAdd repo p b \<in> issued w (snd (Start E w opts))"
    using assms by simp
  then show "\<exists>out. git_show_toplevel E (RepoPath opts) = Some out \<and>
               p = filepath_Join E [WorktreesBase (config w),
                     filepath_Base E (TrimSpace (uni E) out),
                     SanitizeBranchName (uni E) (Description opts)]"
    by (rule Start_issued_path)
next
  fix w2 opts2 r2 w2' repo p b repo2 p2 b2
  assume a: "Start E w2 opts2 = (r2, w2') \<and>
            RepoPath opts2 = RepoPath opts \<and>
            WorktreesBase (config w2) = WorktreesBase (config w) \<and>
            SanitizeBranchName (uni E) (Description opts2) = SanitizeBranchName (uni E) (Description opts) \<and>
            GitWorktreeAdd repo p b \<in> issued w w' \<and>
            GitWorktreeAdd repo2 p2 b2 \<in> issued w2 w2'"
  have "GitWorktreeAdd repo p b \<in> issued w (snd (Start E w opts))"
    using a assms by simp
  then obtain out where o: "git_show_toplevel E (RepoPath opts) = Some out"
    and p: "p = filepath_Join E [WorktreesBase (config w),
                     filepath_Base E (TrimSpace (uni E) out),
                     SanitizeBranchName (uni E) (Description opts)]"
    using Start_issued_path by blast
  have "GitWorktreeAdd repo2 p2 b2 \<in> issued w2 (snd (Start E w2 opts2))"
    using a by simp
  then obtain out2 where o2: "git_show_toplevel E (RepoPath opts2) = Some out2"
    and p2: "p2 = filepath_Join E [WorktreesBase (config w2),
                     filepath_Base E (TrimSpace (uni E) out2),
                     SanitizeBranchName (uni E) (Description opts2)]"
    using Start_issued_path by blast
  have "out2 = out" using o o2 a by simp
  then show "p2 = p" using p p2 a by simp
qed

theorem Start_worktree_path_witness:
  "fst (Start env0 world1 opts1) =
     Inr \<lparr>ID = ''wt-61626364'', Description = ''Add Login!'', Worktree = ''/w/app/add-login'',
          Branch = ''feature/add-login'', RepoPath = ''/src/app'', Connector = [], TicketKey = [],
          Created = \<lparr>instant = 1000, monotonic = Some 5\<rparr>\<rparr> \<and>
   GitWorktreeAdd ''/src/app'' ''/w/app/add-login'' ''feature/add-login''
     \<in> issued world1 (snd (Start env0 world1 opts1)) \<and>
   GitWorktreeAdd ''/src/app'' ''/w/app/add-login'' ''feature/proj-7-add-login''
     \<in> issued world1 (snd (Start env0 world1 optsTicket)) \<and>
   RepoPath optsTicket = RepoPath opts1 \<and>
   SanitizeBranchName (uni env0) (Description optsTicket) =
     SanitizeBranchName (uni env0) (Description opts1) \<and>
   (\<exists>out. git_show_toplevel env0 (RepoPath opts1) = Some out \<and>
      ''/w/app/add-login'' =
        filepath_Join env0 [WorktreesBase (config world1),
          filepath_Base env0 (TrimSpace (uni env0) out),
          SanitizeBranchName (uni env0) (Description opts1)])"
proof -
  have s: "Start env0 world1 opts1 = (fst (Start env0 world1 opts1), snd (Start env0 world1 opts1))"
    by simp
  have r: "fst (Start env0 world1 opts1) =
     Inr \<lparr>ID = ''wt-61626364'', Description = ''Add Login!'', Worktree = ''/w/app/add-login'',
          Branch = ''feature/add-login'', RepoPath = ''/src/app'', Connector = [], TicketKey = [],
          Created = \<lparr>instant = 1000, monotonic = Some 5\<rparr>\<rparr>"
    by code_simp
  have c1: "calls (snd (Start env0 world1 opts1)) =
      [GitShowToplevel ''/src/app'', GitVerify ''/src/app'' ''feature/add-login'',
       OsMkdirAll ''/w/app'', GitWorktreeAdd ''/src/app'' ''/w/app/add-login'' ''feature/add-login'',
       OsMkdirAll ''/home/u/.wt'',
       OsWriteFile ''/home/u/.wt/config.yaml'' (''wt-00000001'' @ [CHR 0x0A] @ ''wt-61626364'' @ [CHR 0x0A])]"
    by code_simp
  have c2: "calls (snd (Start env0 world1 optsTicket)) =
      [GitShowToplevel ''/src/app'', GitVerify ''/src/app'' ''feature/proj-7-add-login'',
       OsMkdirAll ''/w/app'', GitWorktreeAdd ''/src/app'' ''/w/app/add-login'' ''feature/proj-7-add-login'',
       OsMkdirAll ''/home/u/.wt'',
       OsWriteFile ''/home/u/.wt/config.yaml'' (''wt-00000001'' @ [CHR 0x0A] @ ''wt-61626364'' @ [CHR 0x0A])]"
    by code_simp
  have c0: "calls world1 = []"
    by (simp add: world1_def)
  have i1: "GitWorktreeAdd ''/src/app'' ''/w/app/add-login'' ''feature/add-login''
     \<in> issued world1 (snd (Start env0 world1 opts1))"
    by (simp add: issued_def c0 c1)
  have i2: "GitWorktreeAdd ''/src/app'' ''/w/app/add-login'' ''feature/proj-7-add-login''
     \<in> issued world1 (snd (Start env0 world1 optsTicket))"
    by (simp add: issued_def c0 c2)
  have rp: "RepoPath optsTicket = RepoPath opts1"
    by (simp add: optsTicket_def opts1_def)
  have sl: "SanitizeBranchName (uni env0) (Description optsTicket) =
     SanitizeBranchName (uni env0) (Description opts1)"
    by code_simp
  have "\<forall>repo p b. GitWorktreeAdd repo p b \<in> issued world1 (snd (Start env0 world1 opts1)) \<longrightarrow>
            (\<exists>out. git_show_toplevel env0 (RepoPath opts1) = Some out \<and>
               p = filepath_Join env0 [WorktreesBase (config world1),
                     filepath_Base env0 (TrimSpace (uni env0) out),
                     SanitizeBranchName (uni env0) (Description opts1)])"
    by (rule conjunct1 [OF conjunct2 [OF Start_worktree_path [OF s]]])
  then have t: "\<exists>out. git_show_toplevel env0 (RepoPath opts1) = Some out \<and>
      ''/w/app/add-login'' =
        filepath_Join env0 [WorktreesBase (config world1),
          filepath_Base env0 (TrimSpace (uni env0) out),
          SanitizeBranchName (uni env0) (Description opts1)]"
    using i1 by blast
  show ?thesis
    by (intro conjI) (rule r i1 i2 rp sl t)+
qed

text \<open>
  Claim C6, as stated, fails: nothing in \<open>Start\<close> looks at the slug. For the description
  \<open>!!!\<close>, whose slug is empty, \<open>Start\<close> probes for the branch \<open>feature/\<close>, creates the
  parent directory and runs \<open>git worktree add\<close> with that branch and the directory of the
  repository itself; the error it returns is the one git gives.
\<close>

theorem Start_empty_slug_counterexample:
  "SanitizeBranchName (uni envGitStrict) (Description optsBang) = [] \<and>
   fst (Start envGitStrict world1 optsBang) =
     Inl (CreateWorktreeFailed ''fatal: not a valid branch name'') \<and>
   calls (snd (Start envGitStrict world1 optsBang)) =
     [GitShowToplevel ''/src/app'', GitVerify ''/src/app'' ''feature/'', OsMkdirAll ''/w'',
      GitWorktreeAdd ''/src/app'' ''/w/app'' ''feature/'']"
  by code_simp

lemma BranchName_empty_slug:
  "SanitizeBranchName U d = [] \<Longrightarrow>
     BranchName U prefix d = (if prefix = [] then [] else prefix @ ''/'')"
  by (simp add: BranchName_def)

lemma SanitizeBranchName_Nil: "SanitizeBranchName U [] = []"
  by (simp add: SanitizeBranchName_def TrimSpace_def ToLower_def Trim_def TrimLeft_def TrimRight_def)

text \<open>
  Claim C6, amended. \<open>SanitizeBranchName\<close> never errors and gives the empty slug for the
  empty description, and its caller does not validate the slug either. For every start
  whose description sanitizes to the empty slug, by description or by ticket: the branch
  is \<open>prefix + "/"\<close> followed by nothing for a start by description and by the lower-cased
  ticket key, a hyphen and the sanitized title (cut to 60 bytes) for a start by ticket;
  when the repository resolves, the branch probe finds nothing and the parent directory
  can be created, \<open>Start\<close> runs \<open>git worktree add\<close> for that branch in the directory joined
  from the base, the repository name and the empty slug; it fails only in
  \<open>git worktree add\<close> or in saving the registry; and when it succeeds the task it
  registers has that directory and that branch.
\<close>

theorem Start_empty_slug:
  assumes "SanitizeBranchName (uni E) (Description opts) = []"
      and "git_show_toplevel E (RepoPath opts) = Some out"
      and "\<not> git_verify E (RepoPath opts) (startBranch E (config w) opts)"
      and "p = filepath_Join E [WorktreesBase (config w), filepath_Base E (TrimSpace (uni E) out), []]"
      and "os_MkdirAll E (filepath_Dir E p) = None"
  shows "SanitizeBranchName (uni E) [] = [] \<and>
         (TicketKey opts = [] \<longrightarrow>
            startBranch E (config w) opts =
              (if BranchPrefix (config w) = [] then [] else BranchPrefix (config w) @ ''/'')) \<and>
         (TicketKey opts \<noteq> [] \<longrightarrow>
            startBranch E (config w) opts =
              (if BranchPrefix (config w) = [] then [] else BranchPrefix (config w) @ ''/'') @
              cap60 (ToLower (uni E) (TicketKey opts) @ ''-'' @
                     SanitizeBranchName (uni E)
                       (if TicketTitle opts = [] then Description opts else TicketTitle opts))) \<and>
         GitWorktreeAdd (RepoPath opts) p (startBranch E (config w) opts)
           \<in> issued w (snd (Start E w opts)) \<and>
         (\<forall>e. fst (Start E w opts) = Inl e \<longrightarrow>
            (\<exists>m. e = CreateWorktreeFailed m) \<or> (\<exists>e'. e = TaskNotSaved e')) \<and>
         (\<forall>t. fst (Start E w opts) = Inr t \<longrightarrow>
            Worktree t = p \<and> Branch t = startBranch E (config w) opts)"
proof (intro conjI allI impI)
  show "SanitizeBranchName (uni E) [] = []"
    by (rule SanitizeBranchName_Nil)
next
  assume "TicketKey opts = []"
  then show "startBranch E (config w) opts =
           (if BranchPrefix (config w) = [] then [] else BranchPrefix (config w) @ ''/'')"
    using assms(1) by (simp add: startBranch_def BranchName_empty_slug)
next
  assume "TicketKey opts \<noteq> []"
  then show "startBranch E (config w) opts =
              (if BranchPrefix (config w) = [] then [] else BranchPrefix (config w) @ ''/'') @
              cap60 (ToLower (uni E) (TicketKey opts) @ ''-'' @
                     SanitizeBranchName (uni E)
                       (if TicketTitle opts = [] then Description opts else TicketTitle opts))"
    by (simp add: startBranch_def BranchNameFromTicket_def cap60_def Let_def)
next
  let ?b = "startBranch E (config w) opts"
  have p': "p = filepath_Join E [WorktreesBase (config w), filepath_Base E (TrimSpace (uni E) out),
                               SanitizeBranchName (uni E) (Description opts)]"
    using assms(1,4) by simp
  show "GitWorktreeAdd (RepoPath opts) p ?b \<in> issued w (snd (Start E w opts))"
  proof (cases "git_worktree_add E (RepoPath opts) p ?b")
    case (Some e)
    show ?thesis
      by (simp add: Start_create_fails [OF assms(2,3) p' assms(5) Some] issued_def)
  next
    case None
    let ?t = "\<lparr>ID = generateID E, Description = Description opts, Worktree = p,
                Branch = ?b, RepoPath = RepoPath opts,
                Connector = Connector opts, TicketKey = TicketKey opts, Created = time_Now E\<rparr>"
    let ?w1 = "w\<lparr>calls := calls w @ [GitShowToplevel (RepoPath opts),
                                   GitVerify (RepoPath opts) ?b,
                                   OsMkdirAll (filepath_Dir E p),
                                   GitWorktreeAdd (RepoPath opts) p ?b]\<rparr>"
    have st: "snd (Start E w opts) = snd (AddTask E ?w1 ?t)"
      using Start_created [OF assms(2,3) p' assms(5) None refl refl]
      by (simp split: option.splits)
    obtain cs where cs: "calls (snd (AddTask E ?w1 ?t)) = calls ?w1 @ cs"
      using AddTask_calls by blast
    have "issued w (snd (Start E w opts)) =
        set ([GitShowToplevel (RepoPath opts), GitVerify (RepoPath opts) ?b,
              OsMkdirAll (filepath_Dir E p), GitWorktreeAdd (RepoPath opts) p ?b] @ cs)"
      by (rule issued_append) (simp add: st cs)
    then show ?thesis by simp
  qed
next
  fix e
  assume f: "fst (Start E w opts) = Inl e"
  let ?b = "startBranch E (config w) opts"
  have p': "p = filepath_Join E [WorktreesBase (config w), filepath_Base E (TrimSpace (uni E) out),
                               SanitizeBranchName (uni E) (Description opts)]"
    using assms(1,4) by simp
  show "(\<exists>m. e = CreateWorktreeFailed m) \<or> (\<exists>e'. e = TaskNotSaved e')"
  proof (cases "git_worktree_add E (RepoPath opts) p ?b")
    case (Some m)
    then show ?thesis
      using f by (auto simp: Start_create_fails [OF assms(2,3) p' assms(5) Some])
  next
    case None
    show ?thesis
      using f Start_created [OF assms(2,3) p' assms(5) None refl refl]
      by (auto split: option.splits)
  qed
next
  fix t
  assume f: "fst (Start E w opts) = Inr t"
  then have "Start E w opts = (Inr t, snd (Start E w opts))"
    by (simp add: prod_eq_iff)
  then obtain out' where o: "git_show_toplevel E (RepoPath opts) = Some out'"
    and wt: "Worktree t = filepath_Join E [WorktreesBase (config w),
                filepath_Base E (TrimSpace (uni E) out'),
                SanitizeBranchName (uni E) (Description opts)]"
    and br: "Branch t = startBranch E (config w) opts"
    using Start_task by blast
  have "out' = out" using o assms(2) by simp
  then show "Worktree t = p" using wt assms(1,4) by simp
  show "Branch t = startBranch E (config w) opts" by (rule br)
qed

theorem Start_empty_slug_witness:
  "SanitizeBranchName (uni env0) (Description optsBang) = [] \<and>
   SanitizeBranchName (uni env0) (Description optsTicketBang) = [] \<and>
   git_show_toplevel env0 ''/src/app'' = Some (''/src/app'' @ [CHR 0x0A]) \<and>
   ''/w/app'' = filepath_Join env0 [WorktreesBase (config world1),
                  filepath_Base env0 (TrimSpace (uni env0) (''/src/app'' @ [CHR 0x0A])), []] \<and>
   os_MkdirAll env0 (filepath_Dir env0 ''/w/app'') = None \<and>
   TicketKey optsBang = [] \<and>
   startBranch env0 (config world1) optsBang = ''feature/'' \<and>
   GitWorktreeAdd ''/src/app'' ''/w/app'' ''feature/''
     \<in> issued world1 (snd (Start envGitStrict world1 optsBang)) \<and>
   fst (Start envGitStrict world1 optsBang) =
     Inl (CreateWorktreeFailed ''fatal: not a valid branch name'') \<and>
   TicketKey optsTicketBang \<noteq> [] \<and>
   startBranch env0 (config world1) optsTicketBang = ''feature/proj-1-'' \<and>
   GitWorktreeAdd ''/src/app'' ''/w/app'' ''feature/proj-1-''
     \<in> issued world1 (snd (Start env0 world1 optsTicketBang)) \<and>
   fst (Start env0 world1 optsTicketBang) =
     Inr \<lparr>ID = ''wt-61626364'', Description = ''!!!'', Worktree = ''/w/app'',
          Branch = ''feature/proj-1-'', RepoPath = ''/src/app'', Connector = ''jira'',
          TicketKey = ''PROJ-1'', Created = \<lparr>instant = 1000, monotonic = Some 5\<rparr>\<rparr>"
proof -
  have a1: "SanitizeBranchName (uni env0) (Description optsBang) = []"
    by code_simp
  have a1s: "SanitizeBranchName (uni envGitStrict) (Description optsBang) = []"
    by code_simp
  have a1t: "SanitizeBranchName (uni env0) (Description optsTicketBang) = []"
    by code_simp
  have rp: "RepoPath optsBang = ''/src/app''" and rpt: "RepoPath optsTicketBang = ''/src/app''"
    by (simp_all add: optsBang_def optsTicketBang_def)
  have a2: "git_show_toplevel env0 ''/src/app'' = Some (''/src/app'' @ [CHR 0x0A])"
    by (simp add: env0_def)
  have a2s: "git_show_toplevel envGitStrict (RepoPath optsBang) = Some (''/src/app'' @ [CHR 0x0A])"
    by (simp add: envGitStrict_def env0_def rp)
  have a2t: "git_show_toplevel env0 (RepoPath optsTicketBang) = Some (''/src/app'' @ [CHR 0x0A])"
    by (simp add: env0_def rpt)
  have a3s: "\<not> git_verify envGitStrict (RepoPath optsBang) (startBranch envGitStrict (config world1) optsBang)"
    by (simp add: envGitStrict_def env0_def)
  have a3t: "\<not> git_verify env0 (RepoPath optsTicketBang) (startBranch env0 (config world1) optsTicketBang)"
    by (simp add: env0_def)
  have a4: "''/w/app'' = filepath_Join env0 [WorktreesBase (config world1),
                  filepath_Base env0 (TrimSpace (uni env0) (''/src/app'' @ [CHR 0x0A])), []]"
    by code_simp
  have a4s: "''/w/app'' = filepath_Join envGitStrict [WorktreesBase (config world1),
                  filepath_Base envGitStrict (TrimSpace (uni envGitStrict) (''/src/app'' @ [CHR 0x0A])), []]"
    by code_simp
  have a5: "os_MkdirAll env0 (filepath_Dir env0 ''/w/app'') = None"
    by (simp add: env0_def)
  have a5s: "os_MkdirAll envGitStrict (filepath_Dir envGitStrict ''/w/app'') = None"
    by (simp add: envGitStrict_def env0_def)
  have k: "TicketKey optsBang = []" and kt: "TicketKey optsTicketBang \<noteq> []"
    by (simp_all add: optsBang_def optsTicketBang_def)
  have b: "BranchPrefix (config world1) = ''feature''"
    by (simp add: world1_def config1_def)
  have sb0: "startBranch env0 (config world1) optsBang = ''feature/''"
    by code_simp
  have sbs: "startBranch envGitStrict (config world1) optsBang = ''feature/''"
    by code_simp
  have sbt: "startBranch env0 (config world1) optsTicketBang = ''feature/proj-1-''"
    by code_simp
  have fs: "fst (Start envGitStrict world1 optsBang) =
     Inl (CreateWorktreeFailed ''fatal: not a valid branch name'')"
    by code_simp
  have ft: "fst (Start env0 world1 optsTicketBang) =
     Inr \<lparr>ID = ''wt-61626364'', Description = ''!!!'', Worktree = ''/w/app'',
          Branch = ''feature/proj-1-'', RepoPath = ''/src/app'', Connector = ''jira'',
          TicketKey = ''PROJ-1'', Created = \<lparr>instant = 1000, monotonic = Some 5\<rparr>\<rparr>"
    by code_simp
  note ths = Start_empty_slug [OF a1s a2s a3s a4s a5s]
  note tht = Start_empty_slug [OF a1t a2t a3t a4 a5]
  have iss: "GitWorktreeAdd ''/src/app'' ''/w/app'' ''feature/''
     \<in> issued world1 (snd (Start envGitStrict world1 optsBang))"
    using conjunct1 [OF conjunct2 [OF conjunct2 [OF conjunct2 [OF ths]]]]
    by (simp only: rp sbs)
  have ist: "GitWorktreeAdd ''/src/app'' ''/w/app'' ''feature/proj-1-''
     \<in> issued world1 (snd (Start env0 world1 optsTicketBang))"
    using conjunct1 [OF conjunct2 [OF conjunct2 [OF conjunct2 [OF tht]]]]
    by (simp only: rpt sbt)
  show ?thesis
    by (intro conjI) (rule a1 a1t a2 a4 a5 k sb0 iss fs kt sbt ist ft)+
qed

section \<open>Finishing a task\<close>

lemma indexOfID_None: "indexOfID ts x = None \<longleftrightarrow> x \<notin> ID ` set ts"
  by (induction ts) auto

lemma indexOfID_Some: "indexOfID ts x = Some i \<Longrightarrow> i < length ts \<and> ID (ts ! i) = x"
  by (induction ts arbitrary: i) (auto split: if_splits)

lemma indexOfID_removed:
  assumes "indexOfID ts x = Some i" and "distinct (map ID ts)"
  shows "indexOfID (take i ts @ drop (Suc i) ts) x = None"
proof -
  have i: "i < length ts" and x: "ID (ts ! i) = x"
    using indexOfID_Some [OF assms(1)] by auto
  have "ts = take i ts @ ts ! i # drop (Suc i) ts"
    using i by (rule id_take_nth_drop)
  then have "distinct (map ID (take i ts @ ts ! i # drop (Suc i) ts))"
    using assms(2) by simp
  then have "x \<notin> ID ` set (take i ts @ drop (Suc i) ts)"
    using x by auto
  then show ?thesis
    using indexOfID_None [of "take i ts @ drop (Suc i) ts" x] by blast
qed

lemma Finish_not_found:
  assumes "indexOfID (Tasks (config w)) x = None"
  shows "Finish E w x = (Inl (TaskNotFound x), w)"
  using assms by (simp add: Finish_def FindTask_def)

lemma Finish_remove_fails:
  assumes "indexOfID (Tasks (config w)) x = Some i"
      and "git_worktree_remove E (Task.RepoPath (Tasks (config w) ! i)) (Worktree (Tasks (config w) ! i)) = Some e"
  shows "Finish E w x =
           (Inl (RemoveFailed (RemoveWorktreeFailed e)),
            issue (GitWorktreeRemove (Task.RepoPath (Tasks (config w) ! i)) (Worktree (Tasks (config w) ! i))) w)"
  using assms by (simp add: Finish_def FindTask_def Remove_def Let_def)

lemma Finish_removed:
  assumes "indexOfID (Tasks (config w)) x = Some i"
      and "git_worktree_remove E (Task.RepoPath (Tasks (config w) ! i)) (Worktree (Tasks (config w) ! i)) = None"
      and "w1 = w\<lparr>calls := calls w @
              [GitWorktreeRemove (Task.RepoPath (Tasks (config w) ! i)) (Worktree (Tasks (config w) ! i)),
               GitBranchDelete (Task.RepoPath (Tasks (config w) ! i)) (Branch (Tasks (config w) ! i))]\<rparr>"
  shows "Finish E w x =
           (case fst (RemoveTask E w1 x) of
              Some e \<Rightarrow> (Inl e, snd (RemoveTask E w1 x))
            | None \<Rightarrow> (Inr (slotAfterRemove (Tasks (config w)) i), snd (RemoveTask E w1 x)))"
  using assms
  by (simp add: Finish_def FindTask_def Remove_def DeleteBranch_def issue_def Let_def
      split: prod.splits option.splits)

lemma Save_calls_prefix: "\<exists>cs. calls (snd (Save E w)) = calls w @ cs"
  using Save_calls by blast

lemma RemoveTask_calls: "\<exists>cs. calls (snd (RemoveTask E w x)) = calls w @ cs"
proof (cases "indexOfID (Tasks (config w)) x")
  case None
  then show ?thesis by (simp add: RemoveTask_def)
next
  case (Some i)
  then show ?thesis
    using Save_calls_prefix
      [of E "w\<lparr>config := (config w)\<lparr>Tasks := take i (Tasks (config w)) @ drop (i + 1) (Tasks (config w))\<rparr>\<rparr>"]
    by (simp add: RemoveTask_def)
qed

lemma WriteFile_git_branch_D: "WriteFile (E\<lparr>git_branch_D := f\<rparr>) w p d = WriteFile E w p d"
  by (simp add: WriteFile_def)

lemma MkdirAll_git_branch_D: "MkdirAll (E\<lparr>git_branch_D := f\<rparr>) w p = MkdirAll E w p"
  by (simp add: MkdirAll_def)

lemma Save_git_branch_D: "Save (E\<lparr>git_branch_D := f\<rparr>) w = Save E w"
  by (simp add: Save_def ConfigDir_def WriteFile_git_branch_D MkdirAll_git_branch_D
      cong: sum.case_cong option.case_cong prod.case_cong if_cong)

lemma RemoveTask_git_branch_D: "RemoveTask (E\<lparr>git_branch_D := f\<rparr>) w x = RemoveTask E w x"
  by (simp add: RemoveTask_def Save_git_branch_D cong: option.case_cong)

lemma Finish_git_branch_D: "Finish (E\<lparr>git_branch_D := f\<rparr>) w x = Finish E w x"
  by (simp add: Finish_def Remove_def DeleteBranch_def RemoveTask_git_branch_D Let_def
      cong: sum.case_cong option.case_cong prod.case_cong)

text \<open>
  Claim C4, as stated, fails for an id that is registered twice: \<open>RemoveTask\<close> drops the
  first task with the id, so after a successful \<open>Finish\<close> a lookup of the id finds the
  second one. (The task \<open>Finish\<close> returns is read through the pointer after the removal,
  which then points to the second task.)
\<close>

theorem Finish_counterexample:
  "indexOfID (Tasks (config worldDup)) ''wt-00000001'' = Some 0 \<and>
   fst (Finish env0 worldDup ''wt-00000001'') = Inr task2 \<and>
   FindTask (config (snd (Finish env0 worldDup ''wt-00000001''))) ''wt-00000001'' = Inr 0"
  by code_simp

text \<open>
  Claim C4, amended. For every id that is registered, in a registry whose ids are
  pairwise distinct: after a successful \<open>Finish\<close> the working copy has been removed
  (\<open>git worktree remove\<close> was run and succeeded) and a lookup of the id returns
  \<open>TaskNotFound\<close>; the answer of the branch deletion changes nothing in what \<open>Finish\<close>
  returns and leaves behind, so a failed deletion neither fails \<open>Finish\<close> nor keeps the
  task; and when the removal of the working copy fails, \<open>Finish\<close> fails with the registry
  and the files as they were.
\<close>

theorem Finish_removes_task:
  assumes "indexOfID (Tasks (config w)) x = Some i"
      and "distinct (map ID (Tasks (config w)))"
  shows "(\<forall>t w'. Finish E w x = (Inr t, w') \<longrightarrow>
            git_worktree_remove E (Task.RepoPath (Tasks (config w) ! i)) (Worktree (Tasks (config w) ! i)) = None \<and>
            GitWorktreeRemove (Task.RepoPath (Tasks (config w) ! i)) (Worktree (Tasks (config w) ! i))
              \<in> issued w w' \<and>
            FindTask (config w') x = Inl (TaskNotFound x)) \<and>
         (\<forall>f. Finish (E\<lparr>git_branch_D := f\<rparr>) w x = Finish E w x) \<and>
         (\<forall>e. git_worktree_remove E (Task.RepoPath (Tasks (config w) ! i)) (Worktree (Tasks (config w) ! i)) = Some e \<longrightarrow>
            fst (Finish E w x) = Inl (RemoveFailed (RemoveWorktreeFailed e)) \<and>
            config (snd (Finish E w x)) = config w \<and>
            files (snd (Finish E w x)) = files w)"
proof (intro conjI allI impI)
  fix t w'
  assume f: "Finish E w x = (Inr t, w')"
  let ?ts = "Tasks (config w)"
  let ?rm = "GitWorktreeRemove (Task.RepoPath (?ts ! i)) (Worktree (?ts ! i))"
  let ?w1 = "w\<lparr>calls := calls w @ [?rm, GitBranchDelete (Task.RepoPath (?ts ! i)) (Branch (?ts ! i))]\<rparr>"
  show ok: "git_worktree_remove E (Task.RepoPath (?ts ! i)) (Worktree (?ts ! i)) = None"
  proof (cases "git_worktree_remove E (Task.RepoPath (?ts ! i)) (Worktree (?ts ! i))")
    case None
    then show ?thesis .
  next
    case (Some e)
    then show ?thesis
      using f Finish_remove_fails [OF assms(1) Some] by simp
  qed
  have fin: "Finish E w x =
           (case fst (RemoveTask E ?w1 x) of
              Some e \<Rightarrow> (Inl e, snd (RemoveTask E ?w1 x))
            | None \<Rightarrow> (Inr (slotAfterRemove ?ts i), snd (RemoveTask E ?w1 x)))"
    by (rule Finish_removed [OF assms(1) ok refl])
  then have w': "w' = snd (RemoveTask E ?w1 x)"
    using f by (auto split: option.splits)
  obtain cs where cs: "calls (snd (RemoveTask E ?w1 x)) = calls ?w1 @ cs"
    using RemoveTask_calls by blast
  have "issued w w' =
      set ([?rm, GitBranchDelete (Task.RepoPath (?ts ! i)) (Branch (?ts ! i))] @ cs)"
    by (rule issued_append) (simp add: w' cs)
  then show "?rm \<in> issued w w'"
    by simp
  have "Tasks (config w') = take i ?ts @ drop (Suc i) ?ts"
    using assms(1) by (simp add: w' RemoveTask_Tasks)
  then have "indexOfID (Tasks (config w')) x = None"
    using indexOfID_removed [OF assms] by simp
  then show "FindTask (config w') x = Inl (TaskNotFound x)"
    by (simp add: FindTask_def)
next
  fix f
  show "Finish (E\<lparr>git_branch_D := f\<rparr>) w x = Finish E w x"
    by (rule Finish_git_branch_D)
next
  fix e
  assume "git_worktree_remove E (Task.RepoPath (Tasks (config w) ! i)) (Worktree (Tasks (config w) ! i)) = Some e"
  note r = Finish_remove_fails [OF assms(1) this]
  show "fst (Finish E w x) = Inl (RemoveFailed (RemoveWorktreeFailed e))"
    and "config (snd (Finish E w x)) = config w"
    and "files (snd (Finish E w x)) = files w"
    by (simp_all add: r issue_def)
qed

theorem Finish_removes_task_witness:
  "indexOfID (Tasks (config world1)) ''wt-00000001'' = Some 0 \<and>
   distinct (map ID (Tasks (config world1))) \<and>
   git_branch_D envBranchGone ''/src/app'' ''feature/add-login'' = Some ''error: branch not found'' \<and>
   fst (Finish envBranchGone world1 ''wt-00000001'') = Inr task1 \<and>
   GitWorktreeRemove ''/src/app'' ''/w/app/add-login''
     \<in> issued world1 (snd (Finish envBranchGone world1 ''wt-00000001'')) \<and>
   FindTask (config (snd (Finish envBranchGone world1 ''wt-00000001''))) ''wt-00000001'' =
     Inl (TaskNotFound ''wt-00000001'') \<and>
   fst (Finish envRemoveFails world1 ''wt-00000001'') =
     Inl (RemoveFailed (RemoveWorktreeFailed ''fatal: cannot remove'')) \<and>
   config (snd (Finish envRemoveFails world1 ''wt-00000001'')) = config world1"
proof -
  have a1: "indexOfID (Tasks (config world1)) ''wt-00000001'' = Some 0"
    by (simp add: world1_def config1_def task1_def)
  have a2: "distinct (map ID (Tasks (config world1)))"
    by (simp add: world1_def config1_def)
  have g: "git_branch_D envBranchGone ''/src/app'' ''feature/add-login'' = Some ''error: branch not found''"
    by (simp add: envBranchGone_def)
  have t0: "Tasks (config world1) ! 0 = task1"
    by (simp add: world1_def config1_def)
  have rp: "Task.RepoPath task1 = ''/src/app''" and wp: "Worktree task1 = ''/w/app/add-login''"
    by (simp_all add: task1_def)
  have r: "fst (Finish envBranchGone world1 ''wt-00000001'') = Inr task1"
    by code_simp
  have s: "Finish envBranchGone world1 ''wt-00000001'' =
      (Inr task1, snd (Finish envBranchGone world1 ''wt-00000001''))"
    using r by (simp add: prod_eq_iff)
  note th = Finish_removes_task [OF a1 a2, of envBranchGone]
  have c1: "git_worktree_remove envBranchGone (Task.RepoPath (Tasks (config world1) ! 0))
              (Worktree (Tasks (config world1) ! 0)) = None \<and>
            GitWorktreeRemove (Task.RepoPath (Tasks (config world1) ! 0)) (Worktree (Tasks (config world1) ! 0))
              \<in> issued world1 (snd (Finish envBranchGone world1 ''wt-00000001'')) \<and>
            FindTask (config (snd (Finish envBranchGone world1 ''wt-00000001''))) ''wt-00000001'' =
              Inl (TaskNotFound ''wt-00000001'')"
    using conjunct1 [OF th] s by blast
  have f: "git_worktree_remove envRemoveFails (Task.RepoPath (Tasks (config world1) ! 0))
              (Worktree (Tasks (config world1) ! 0)) = Some ''fatal: cannot remove''"
    by (simp add: envRemoveFails_def)
  note th2 = Finish_removes_task [OF a1 a2, of envRemoveFails]
  have c3: "fst (Finish envRemoveFails world1 ''wt-00000001'') =
              Inl (RemoveFailed (RemoveWorktreeFailed ''fatal: cannot remove'')) \<and>
            config (snd (Finish envRemoveFails world1 ''wt-00000001'')) = config world1 \<and>
            files (snd (Finish envRemoveFails world1 ''wt-00000001'')) = files world1"
    using conjunct2 [OF conjunct2 [OF th2]] f by blast
  show ?thesis
    using a1 a2 g r c1 c3 by (simp add: t0 rp wp)
qed

section \<open>Saving and loading\<close>

lemma orElse_omitempty: "orElse (omitempty s) [] = s"
  by (simp add: orElse_def omitempty_def)

lemma taskOfDoc_docOfTask: "taskOfDoc (docOfTask t) = persisted t"
  by (simp add: taskOfDoc_def docOfTask_def persisted_def orElse_omitempty) (simp add: orElse_def)

lemma persisted_parsed: "monotonic (Created t) = None \<Longrightarrow> persisted t = t"
  by (simp add: persisted_def)

lemma map_persisted_parsed:
  "\<forall>t \<in> set ts. monotonic (Created t) = None \<Longrightarrow> map persisted ts = ts"
  by (induction ts) (simp_all add: persisted_parsed)

lemma connectorOfDoc_docOfConnector: "connectorOfDoc (docOfConnector cc) = cc"
  by (simp add: connectorOfDoc_def docOfConnector_def orElse_omitempty)

lemma map_taskOfDoc_docOfTask: "map taskOfDoc (map docOfTask ts) = map persisted ts"
  by (induction ts) (simp_all add: taskOfDoc_docOfTask)

lemma decode_tasks:
  "(case omitempty (map docOfTask ts) of None \<Rightarrow> [] | Some ds \<Rightarrow> map taskOfDoc ds) = map persisted ts"
  using map_taskOfDoc_docOfTask [of ts] by (cases ts) (simp_all add: omitempty_def)

lemma decode_connectors:
  "(case omitempty (map (\<lambda>(k, cc). (k, docOfConnector cc)) cs) of
      None \<Rightarrow> []
    | Some m \<Rightarrow> map (\<lambda>(k, cd). (k, connectorOfDoc cd)) m) = cs"
proof -
  have "map (\<lambda>(k, cd). (k, connectorOfDoc cd)) (map (\<lambda>(k, cc). (k, docOfConnector cc)) cs) = cs"
    by (induction cs) (auto simp: connectorOfDoc_docOfConnector)
  then show ?thesis
    by (cases cs) (simp_all add: omitempty_def)
qed

lemma decode_omitempty:
  "(case omitempty s of None \<Rightarrow> [] | Some v \<Rightarrow> v) = s"
  by (simp add: omitempty_def)

lemma decodeInto_docOfConfig:
  "decodeInto (docOfConfig c) ((DefaultConfig E)\<lparr>path := p\<rparr>) =
     c\<lparr>path := p, Tasks := map persisted (Tasks c)\<rparr>"
  by (cases c)
     (simp add: decodeInto_def docOfConfig_def DefaultConfig_def orElse_def
        decode_tasks decode_connectors decode_omitempty cong: option.case_cong)

lemma Save_ok:
  assumes "Save E w = (None, w')"
  shows "\<exists>data.
           yaml_emit E (docOfConfig (config w)) = Inr data \<and>
           files w' (path (config w')) = Some data \<and>
           config w' = (config w)\<lparr>path := path (config w')\<rparr> \<and>
           (path (config w) \<noteq> [] \<longrightarrow> path (config w') = path (config w)) \<and>
           (path (config w) = [] \<longrightarrow>
              (\<exists>dir. ConfigDir E = Inr dir \<and> path (config w') = filepath_Join E [dir, configFile]))"
  using assms
  by (auto simp: Save_def MkdirAll_def WriteFile_def issue_def Let_def docOfConfig_def
      split: sum.splits option.splits write_outcome.splits prod.splits if_splits)

lemma Load_files:
  assumes "files w2 = files w1"
  shows "Load E w2 = Load E w1"
proof -
  have r: "ReadFile E w2 = ReadFile E w1"
    unfolding ReadFile_def assms by (rule refl)
  show ?thesis
    unfolding Load_def r by (rule refl)
qed

text \<open>
  Claim C9, as stated, fails, for two reasons. The text of a time holds its instant and
  not the monotonic clock reading that \<open>time.Now\<close> attaches: the task \<open>Start\<close> has made and
  saved is loaded back with a \<open>Created\<close> that differs from the one in memory, even by a
  YAML library that reads back exactly the document it wrote. And the YAML library does
  not read back every document it writes: a registry whose task has a description that
  begins with a line break is saved, and loading it fails.
\<close>

theorem Save_Load_counterexample:
  "Tasks (config worldNow) = [taskNow] \<and>
   Created taskNow = \<lparr>instant = 1000, monotonic = Some 5\<rparr> \<and>
   fst (Save envCodec worldNow) = None \<and>
   yaml_parse envCodec (''wt-61626364'' @ [CHR 0x0A]) = Inr (docOfConfig (config worldNow)) \<and>
   Load envCodec (freshWorld envCodec (snd (Save envCodec worldNow))) =
     Inr ((config worldNow)
            \<lparr>Tasks := [taskNow\<lparr>Created := \<lparr>instant = 1000, monotonic = None\<rparr>\<rparr>]\<rparr>) \<and>
   taskNow\<lparr>Created := \<lparr>instant = 1000, monotonic = None\<rparr>\<rparr> \<noteq> taskNow \<and>
   Tasks (config worldNewline) = [taskNewline] \<and>
   Task.Description taskNewline = [CHR 0x0A] @ ''fix'' \<and>
   fst (Save envBlockScalar worldNewline) = None \<and>
   Load envBlockScalar (freshWorld envBlockScalar (snd (Save envBlockScalar worldNewline))) =
     Inl (ParseConfigFailed ''yaml: did not find expected key'')"
  by code_simp

text \<open>
  Claim C9, amended. The document written for a registry decodes, into the defaults
  \<open>Load\<close> starts from, to the same registry with every task as the persisted format keeps
  it: all fields as they were, \<open>Created\<close> with its instant and without the monotonic clock
  reading. So for every registry of N tasks: when the save succeeds into the file
  \<open>Load\<close> reads, the file can be read and the YAML library reads the written text back
  as the document it wrote, then \<open>Load\<close>, run on the saved files in whatever state of
  the program, yields exactly N tasks, each the original as the persisted format keeps
  it; they are identical to the originals when those carry no clock reading, as tasks
  that were loaded do.
\<close>

theorem Save_Load_roundtrip:
  assumes "Save E w = (None, w')"
      and "ConfigDir E = Inr dir"
      and "path (config w) = [] \<or> path (config w) = filepath_Join E [dir, configFile]"
      and "os_ReadFile_fault E (filepath_Join E [dir, configFile]) = None"
      and "yaml_emit E (docOfConfig (config w)) = Inr data"
      and "yaml_parse E data = Inr (docOfConfig (config w))"
      and "files w2 = files w'"
  shows "(\<forall>c p. decodeInto (docOfConfig c) ((DefaultConfig E)\<lparr>path := p\<rparr>) =
                  c\<lparr>path := p, Tasks := map persisted (Tasks c)\<rparr>) \<and>
         (\<exists>c. Load E w2 = Inr c \<and>
              c = (config w')\<lparr>Tasks := map persisted (Tasks (config w))\<rparr> \<and>
              length (Tasks c) = length (Tasks (config w)) \<and>
              Tasks c = map persisted (Tasks (config w)) \<and>
              ((\<forall>t \<in> set (Tasks (config w)). monotonic (Created t) = None) \<longrightarrow>
                 Tasks c = Tasks (config w)))"
proof
  show "\<forall>c p. decodeInto (docOfConfig c) ((DefaultConfig E)\<lparr>path := p\<rparr>) =
                  c\<lparr>path := p, Tasks := map persisted (Tasks c)\<rparr>"
    by (simp only: decodeInto_docOfConfig) simp
next
  let ?p = "filepath_Join E [dir, configFile]"
  let ?ts = "map persisted (Tasks (config w))"
  obtain data' where e: "yaml_emit E (docOfConfig (config w)) = Inr data'"
    and f: "files w' (path (config w')) = Some data'"
    and c: "config w' = (config w)\<lparr>path := path (config w')\<rparr>"
    and p1: "path (config w) \<noteq> [] \<longrightarrow> path (config w') = path (config w)"
    and p2: "path (config w) = [] \<longrightarrow>
              (\<exists>dir. ConfigDir E = Inr dir \<and> path (config w') = filepath_Join E [dir, configFile])"
    using Save_ok [OF assms(1)] by blast
  have d: "data' = data"
    using e assms(5) by simp
  have p: "path (config w') = ?p"
    using p1 p2 assms(2,3) by auto
  have r: "ReadFile E w' ?p = ReadOk data"
    using f p d assms(4) by (simp add: ReadFile_def)
  have "Load E w2 = Load E w'"
    using assms(7) by (rule Load_files)
  also have "\<dots> = Inr (decodeInto (docOfConfig (config w)) ((DefaultConfig E)\<lparr>path := ?p\<rparr>))"
    using assms(2,6) r by (simp add: Load_def Let_def)
  also have "\<dots> = Inr ((config w)\<lparr>path := ?p, Tasks := ?ts\<rparr>)"
    by (simp only: decodeInto_docOfConfig)
  finally have l: "Load E w2 = Inr ((config w)\<lparr>path := ?p, Tasks := ?ts\<rparr>)" .
  have "(config w)\<lparr>path := ?p\<rparr> = config w'"
    using c p by simp
  then have eq: "(config w)\<lparr>path := ?p, Tasks := ?ts\<rparr> = (config w')\<lparr>Tasks := ?ts\<rparr>"
    by simp
  have m: "(\<forall>t \<in> set (Tasks (config w)). monotonic (Created t) = None) \<longrightarrow>
             ?ts = Tasks (config w)"
    using map_persisted_parsed by blast
  show "\<exists>c. Load E w2 = Inr c \<and>
              c = (config w')\<lparr>Tasks := ?ts\<rparr> \<and>
              length (Tasks c) = length (Tasks (config w)) \<and>
              Tasks c = ?ts \<and>
              ((\<forall>t \<in> set (Tasks (config w)). monotonic (Created t) = None) \<longrightarrow>
                 Tasks c = Tasks (config w))"
    using l m unfolding eq by simp
qed

theorem Save_Load_roundtrip_witness:
  "fst (Save envYaml world2) = None \<and>
   ConfigDir envYaml = Inr ''/home/u/.wt'' \<and>
   path (config world2) = filepath_Join envYaml [''/home/u/.wt'', configFile] \<and>
   os_ReadFile_fault envYaml (filepath_Join envYaml [''/home/u/.wt'', configFile]) = None \<and>
   yaml_emit envYaml (docOfConfig (config world2)) =
     Inr (''wt-00000001'' @ [CHR 0x0A] @ ''wt-00000002'' @ [CHR 0x0A]) \<and>
   yaml_parse envYaml (''wt-00000001'' @ [CHR 0x0A] @ ''wt-00000002'' @ [CHR 0x0A]) =
     Inr (docOfConfig (config world2)) \<and>
   files (freshWorld envYaml (snd (Save envYaml world2))) = files (snd (Save envYaml world2)) \<and>
   (\<exists>c. Load envYaml (freshWorld envYaml (snd (Save envYaml world2))) = Inr c \<and>
        Tasks c = [task1, task3] \<and> length (Tasks c) = 2) \<and>
   fst (Save envCodec worldNow) = None \<and>
   yaml_parse envCodec (''wt-61626364'' @ [CHR 0x0A]) = Inr (docOfConfig (config worldNow)) \<and>
   (\<exists>c. Load envCodec (freshWorld envCodec (snd (Save envCodec worldNow))) = Inr c \<and>
        Tasks c = [persisted taskNow] \<and> length (Tasks c) = 1)"
proof -
  have s0: "fst (Save envYaml world2) = None"
    by (simp add: Save_def MkdirAll_def WriteFile_def issue_def Let_def envYaml_def env0_def
      world2_def world1_def config1_def)
  have s: "Save envYaml world2 = (None, snd (Save envYaml world2))"
    using s0 by (simp add: prod_eq_iff)
  have cd: "ConfigDir envYaml = Inr ''/home/u/.wt''"
    by (simp add: ConfigDir_def envYaml_def env0_def plainJoin_def configDir_def)
  have pa: "path (config world2) = filepath_Join envYaml [''/home/u/.wt'', configFile]"
    by (simp add: envYaml_def env0_def plainJoin_def configFile_def world2_def world1_def config1_def)
  have rf: "os_ReadFile_fault envYaml (filepath_Join envYaml [''/home/u/.wt'', configFile]) = None"
    by (simp add: envYaml_def env0_def)
  have em: "yaml_emit envYaml (docOfConfig (config world2)) =
     Inr (''wt-00000001'' @ [CHR 0x0A] @ ''wt-00000002'' @ [CHR 0x0A])"
    by (simp add: envYaml_def env0_def world2_def world1_def config1_def task1_def task2_def
      task3_def docOfConfig_def docOfTask_def omitempty_def idLines_def orElse_def)
  have pr: "yaml_parse envYaml (''wt-00000001'' @ [CHR 0x0A] @ ''wt-00000002'' @ [CHR 0x0A]) =
     Inr (docOfConfig (config world2))"
    by (simp add: envYaml_def)
  have fw: "files (freshWorld envYaml (snd (Save envYaml world2))) = files (snd (Save envYaml world2))"
    by (simp add: freshWorld_def)
  have ts: "Tasks (config world2) = [task1, task3]"
    by (simp add: world2_def world1_def config1_def)
  have mono: "\<forall>t \<in> set (Tasks (config world2)). monotonic (Created t) = None"
    by (simp add: ts task1_def task2_def task3_def)
  have "\<exists>c. Load envYaml (freshWorld envYaml (snd (Save envYaml world2))) = Inr c \<and>
          c = (config (snd (Save envYaml world2)))\<lparr>Tasks := map persisted (Tasks (config world2))\<rparr> \<and>
          length (Tasks c) = length (Tasks (config world2)) \<and>
          Tasks c = map persisted (Tasks (config world2)) \<and>
          ((\<forall>t \<in> set (Tasks (config world2)). monotonic (Created t) = None) \<longrightarrow>
             Tasks c = Tasks (config world2))"
    by (rule conjunct2 [OF Save_Load_roundtrip [OF s cd disjI2 [OF pa] rf em pr fw]])
  then obtain c where c: "Load envYaml (freshWorld envYaml (snd (Save envYaml world2))) = Inr c"
    and cl: "length (Tasks c) = length (Tasks (config world2))"
    and ct: "(\<forall>t \<in> set (Tasks (config world2)). monotonic (Created t) = None) \<longrightarrow>
             Tasks c = Tasks (config world2)"
    by blast
  have "Tasks c = [task1, task3]" and "length (Tasks c) = 2"
    using ct mono cl by (simp_all add: ts)
  then have l1: "\<exists>c. Load envYaml (freshWorld envYaml (snd (Save envYaml world2))) = Inr c \<and>
        Tasks c = [task1, task3] \<and> length (Tasks c) = 2"
    using c by blast
  have n0: "fst (Save envCodec worldNow) = None"
    by (simp add: Save_def MkdirAll_def WriteFile_def issue_def Let_def envCodec_def env0_def
      worldNow_def config1_def)
  have n: "Save envCodec worldNow = (None, snd (Save envCodec worldNow))"
    using n0 by (simp add: prod_eq_iff)
  have ncd: "ConfigDir envCodec = Inr ''/home/u/.wt''"
    by (simp add: ConfigDir_def envCodec_def env0_def plainJoin_def configDir_def)
  have npa: "path (config worldNow) = filepath_Join envCodec [''/home/u/.wt'', configFile]"
    by (simp add: envCodec_def env0_def plainJoin_def configFile_def worldNow_def config1_def)
  have nrf: "os_ReadFile_fault envCodec (filepath_Join envCodec [''/home/u/.wt'', configFile]) = None"
    by (simp add: envCodec_def env0_def)
  have nem: "yaml_emit envCodec (docOfConfig (config worldNow)) = Inr (''wt-61626364'' @ [CHR 0x0A])"
    by (simp add: envCodec_def env0_def worldNow_def config1_def taskNow_def
      docOfConfig_def docOfTask_def omitempty_def idLines_def orElse_def)
  have npr: "yaml_parse envCodec (''wt-61626364'' @ [CHR 0x0A]) = Inr (docOfConfig (config worldNow))"
    by (simp add: envCodec_def)
  have nfw: "files (freshWorld envCodec (snd (Save envCodec worldNow))) = files (snd (Save envCodec worldNow))"
    by (simp add: freshWorld_def)
  have nts: "Tasks (config worldNow) = [taskNow]"
    by (simp add: worldNow_def config1_def)
  have "\<exists>c. Load envCodec (freshWorld envCodec (snd (Save envCodec worldNow))) = Inr c \<and>
          c = (config (snd (Save envCodec worldNow)))\<lparr>Tasks := map persisted (Tasks (config worldNow))\<rparr> \<and>
          length (Tasks c) = length (Tasks (config worldNow)) \<and>
          Tasks c = map persisted (Tasks (config worldNow)) \<and>
          ((\<forall>t \<in> set (Tasks (config worldNow)). monotonic (Created t) = None) \<longrightarrow>
             Tasks c = Tasks (config worldNow))"
    by (rule conjunct2 [OF Save_Load_roundtrip [OF n ncd disjI2 [OF npa] nrf nem npr nfw]])
  then obtain c' where c': "Load envCodec (freshWorld envCodec (snd (Save envCodec worldNow))) = Inr c'"
    and cl': "length (Tasks c') = length (Tasks (config worldNow))"
    and ct': "Tasks c' = map persisted (Tasks (config worldNow))"
    by blast
  have "Tasks c' = [persisted taskNow]" and "length (Tasks c') = 1"
    using ct' cl' by (simp_all add: nts)
  then have l2: "\<exists>c. Load envCodec (freshWorld envCodec (snd (Save envCodec worldNow))) = Inr c \<and>
        Tasks c = [persisted taskNow] \<and> length (Tasks c) = 1"
    using c' by blast
  show ?thesis
    by (intro conjI) (rule s0 cd pa rf em pr fw l1 n0 npr l2)+
qed

end
